theory Spec2Isabelle
  imports Complex_Main
begin

chapter \<open>Replanning strategies: the DRRT* replanner and the DRRT* / MARSHA managers\<close>

text \<open>
  A shallow embedding of \<^verbatim>\<open>DynamicRRTStar\<close> (\<^verbatim>\<open>nodeBehindObs\<close>,
  \<^verbatim>\<open>rewireBehindObs\<close>, \<^verbatim>\<open>replan\<close>), of
  \<^verbatim>\<open>ReplannerManagerDRRTStar::startReplannedPathFromNewCurrentConf\<close> and of
  \<^verbatim>\<open>ReplannerManagerMARSHA\<close> (\<^verbatim>\<open>initReplanner\<close>,
  \<^verbatim>\<open>updateObstaclesPositions\<close>, \<^verbatim>\<open>collisionCheckThread\<close>).

  The file \<^verbatim>\<open>DRRT.h\<close> of the sources holds \<^verbatim>\<open>DRRT.h\<close> itself and two versions of
  \<^verbatim>\<open>DRRTStar.cpp\<close>. The model follows the first version, whose \<^verbatim>\<open>replan\<close> calls
  \<^verbatim>\<open>rewireBehindObs\<close>.

  Conventions of the embedding.
  \<^item> A member \<^verbatim>\<open>name_\<close> of a C++ class is the record field \<open>name_'\<close> (a name cannot end
    with an underscore here), and the local variable \<^verbatim>\<open>root\<close> is \<open>root'\<close> (\<open>root\<close> is
    already a constant of HOL).
  \<^item> A \<^verbatim>\<open>double\<close> that the code compares with or initialises to
    \<^verbatim>\<open>std::numeric_limits<double>::infinity()\<close> is a value of type \<open>dbl\<close>: a real or
    \<open>+\<infinity>\<close>. Other doubles (times, distances, coordinates) are reals. Rounding and NaN are
    outside the model.
  \<^item> Shared pointers to nodes, trees and paths are addresses (\<open>nat\<close>) into an explicit heap.
  \<^item> The planning library \<^verbatim>\<open>graph_core\<close> (tree, path, sampler, checker, metrics) is not
    part of the repository: its operations are parameters of the model, collected in the
    record \<open>graph_core\<close>, each a function on the heap.
  \<^item> \<^verbatim>\<open>assert\<close> aborts the program when its condition is false (the error
    \<open>Assertion_failed\<close>), unless the program was compiled with \<^verbatim>\<open>NDEBUG\<close>: then
    the assertion is no code at all. The build mode is the flag \<open>NDEBUG\<close> of the
    environment. The condition of an assertion is an observation of the state.
  \<^item> A \<^verbatim>\<open>while\<close> loop whose exit depends on the wall clock takes fuel: the result
    \<open>None\<close> says that the loop was still running when the fuel ran out.
  \<^item> Console output (\<^verbatim>\<open>ROS_INFO\<close> and friends) and the display handle are left out
    of the replanner; the MARSHA manager keeps its console output, since the manager's
    behaviour is partly described by it.
\<close>

section \<open>Data model\<close>

subsection \<open>Doubles with infinity\<close>

datatype dbl = Fin real | PInf

fun dbl_add :: "dbl \<Rightarrow> dbl \<Rightarrow> dbl" where
  "dbl_add (Fin a) (Fin b) = Fin (a + b)"
| "dbl_add _ _ = PInf"

fun dbl_less :: "dbl \<Rightarrow> dbl \<Rightarrow> bool" where
  "dbl_less (Fin a) (Fin b) = (a < b)"
| "dbl_less (Fin a) PInf = True"
| "dbl_less PInf _ = False"

subsection \<open>Configurations, nodes, connections\<close>

type_synonym config = "real list"
type_synonym node = nat
type_synonym tree_id = nat
type_synonym path_id = nat

text \<open>\<^verbatim>\<open>(a - b).norm()\<close> of two \<^verbatim>\<open>Eigen::VectorXd\<close> of the same size.\<close>

definition norm_diff :: "config \<Rightarrow> config \<Rightarrow> real" where
  "norm_diff a b = sqrt (sum_list (map (\<lambda>(x, y). (x - y)\<^sup>2) (zip a b)))"

text \<open>A \<^verbatim>\<open>Connection\<close>: directed, from \<^verbatim>\<open>getParent()\<close> to \<^verbatim>\<open>getChild()\<close>,
  with \<^verbatim>\<open>getCost()\<close>.\<close>

record connection =
  parent :: node
  child :: node
  cost :: dbl

subsection \<open>\<^verbatim>\<open>DynamicRRTStar::nodeBehindObs\<close>\<close>

text \<open>
  The loop \<^verbatim>\<open>for(int i=size-1; i>=0; i--)\<close>: \<open>nodeBehindObs_scan conns n\<close> runs it from
  \<open>i = n - 1\<close> down to \<open>0\<close>. Every index read is in range (\<open>i + 1\<close> is read only when
  \<open>i < size - 1\<close>), so \<^verbatim>\<open>at\<close> never throws. The result is \<open>None\<close> when the function
  returns \<^verbatim>\<open>false\<close>, and \<open>Some node_behind\<close> when it returns \<^verbatim>\<open>true\<close>.
\<close>

fun nodeBehindObs_scan :: "connection list \<Rightarrow> nat \<Rightarrow> node option" where
  "nodeBehindObs_scan conns 0 = None"
| "nodeBehindObs_scan conns (Suc i) =
     (if cost (conns ! i) = PInf
      then (if i < length conns - 1
            then Some (child (conns ! (i + 1)))
            else Some (child (conns ! i)))
      else nodeBehindObs_scan conns i)"

definition nodeBehindObs :: "connection list \<Rightarrow> node option" where
  "nodeBehindObs conns = nodeBehindObs_scan conns (length conns)"

subsection \<open>Errors\<close>

text \<open>
  The ways the modelled code stops abnormally: a failed \<^verbatim>\<open>assert\<close>, the dereference of
  a null shared pointer, \<^verbatim>\<open>std::vector::at\<close> out of range and a thrown
  \<^verbatim>\<open>std::runtime_error\<close> with its message.
\<close>

datatype error = Assertion_failed | Null_pointer | Out_of_range | Runtime_error string

subsection \<open>The heap of the planning library\<close>

text \<open>A \<^verbatim>\<open>Path\<close> object: its vector of connections and its \<^verbatim>\<open>getTree()\<close>.\<close>

record path =
  connections :: "connection list"
  path_tree :: tree_id

text \<open>
  The objects the replanner reaches through shared pointers. \<open>configuration\<close>,
  \<open>parent_connections_'\<close> and \<open>child_connections_'\<close> are the members of each
  \<^verbatim>\<open>Node\<close>; \<open>tree_root\<close> is \<^verbatim>\<open>Tree::getRoot()\<close>; \<open>paths\<close> holds the
  \<^verbatim>\<open>Path\<close> objects and \<open>next_path\<close> is the address the next
  \<^verbatim>\<open>std::make_shared<Path>\<close> returns; \<open>solver_start_tree\<close> and \<open>solver_solution\<close>
  record the last \<^verbatim>\<open>setStartTree\<close> and \<^verbatim>\<open>setSolution\<close> of the solver;
  \<open>wall_time\<close> is \<^verbatim>\<open>ros::WallTime::now()\<close> in seconds; \<open>library_state\<close> is whatever
  else the library keeps (the random generator of the sampler, the node lists of the trees).
  The getters and setters of the library (\<^verbatim>\<open>getConfiguration\<close>, \<^verbatim>\<open>getParents\<close>,
  \<^verbatim>\<open>getRoot\<close>, \<^verbatim>\<open>getTree\<close>, \<^verbatim>\<open>getConnections\<close>, \<^verbatim>\<open>setConnections\<close>,
  \<^verbatim>\<open>setTree\<close>) read and write these fields.
  Two connections with the same end points and cost are the same connection in this model.
\<close>

record 'x heap =
  configuration :: "node \<Rightarrow> config"
  parent_connections_' :: "node \<Rightarrow> connection list"
  child_connections_' :: "node \<Rightarrow> connection list"
  tree_root :: "tree_id \<Rightarrow> node"
  paths :: "path_id \<Rightarrow> path"
  next_path :: path_id
  solver_start_tree :: "tree_id option"
  solver_solution :: "path_id option"
  wall_time :: real
  library_state :: 'x

text \<open>
  Modelled from the spec: \<^verbatim>\<open>Connection::add\<close> and \<^verbatim>\<open>Connection::remove\<close> belong to
  \<^verbatim>\<open>graph_core\<close> and are not in the sources. Section 3 of the specification: adding an
  edge mutates both endpoints' adjacency lists; removal detaches both sides.
\<close>

definition Connection_add :: "connection \<Rightarrow> 'x heap \<Rightarrow> 'x heap" where
  "Connection_add c h =
     h\<lparr>child_connections_' :=
         (child_connections_' h)(parent c := child_connections_' h (parent c) @ [c]),
       parent_connections_' :=
         (parent_connections_' h)(child c := parent_connections_' h (child c) @ [c])\<rparr>"

definition Connection_remove :: "connection \<Rightarrow> 'x heap \<Rightarrow> 'x heap" where
  "Connection_remove c h =
     h\<lparr>child_connections_' :=
         (child_connections_' h)(parent c := remove1 c (child_connections_' h (parent c))),
       parent_connections_' :=
         (parent_connections_' h)(child c := remove1 c (parent_connections_' h (child c)))\<rparr>"

text \<open>
  \<^verbatim>\<open>LocalInformedSampler\<close>: the arguments of its constructor and the balls added by
  \<^verbatim>\<open>addBall\<close>. Drawing a sample is the library's \<open>sample\<close>.
\<close>

record local_informed_sampler =
  focus1 :: config
  focus2 :: config
  lower_bound :: config
  upper_bound :: config
  cost_bound :: dbl
  balls :: "(config \<times> real) list"

definition LocalInformedSampler ::
  "config \<Rightarrow> config \<Rightarrow> config \<Rightarrow> config \<Rightarrow> dbl \<Rightarrow> local_informed_sampler" where
  "LocalInformedSampler f1 f2 lb ub c =
     \<lparr>focus1 = f1, focus2 = f2, lower_bound = lb, upper_bound = ub, cost_bound = c, balls = []\<rparr>"

definition addBall :: "config \<Rightarrow> real \<Rightarrow> local_informed_sampler \<Rightarrow> local_informed_sampler" where
  "addBall center radius s = s\<lparr>balls := balls s @ [(center, radius)]\<rparr>"

text \<open>
  The environment of the replanner: the build mode (\<open>NDEBUG\<close>: assertions are compiled
  out) and the operations of \<^verbatim>\<open>graph_core\<close> the replanner calls, as parameters. An
  operation that can change the tree, take time or draw random numbers returns the new heap.
  A reference argument the callee writes (\<^verbatim>\<open>checked_connections\<close>,
  \<^verbatim>\<open>new_node\<close>) is returned: \<open>rewireWithPathCheck\<close> returns \<open>Some new_node\<close> when
  the C++ function returns \<^verbatim>\<open>true\<close>. \<open>addNodeAtCurrentConfig\<close> is taken to return a
  node (not a null pointer). The operations that only occur in assertions or only read
  (\<open>isValidFromConf\<close>, \<open>getCostFromConf\<close>, \<open>findConnection\<close>, \<open>getNodes\<close>,
  \<open>isInTree\<close>, \<open>getMaximumDistance\<close>, \<open>costToNode\<close>, \<open>getConnectionToNode\<close>,
  \<open>metrics_cost\<close>) return a value and leave the heap as it is.
\<close>

record 'x graph_core =
  NDEBUG :: bool
  getCostFromConf :: "path_id \<Rightarrow> config \<Rightarrow> 'x heap \<Rightarrow> dbl"
  findConnection :: "path_id \<Rightarrow> config \<Rightarrow> 'x heap \<Rightarrow> connection option"
  addNodeAtCurrentConfig ::
    "path_id \<Rightarrow> config \<Rightarrow> connection option \<Rightarrow> bool \<Rightarrow> 'x heap \<Rightarrow> node \<times> 'x heap"
  isValidFromConf :: "path_id \<Rightarrow> config \<Rightarrow> 'x heap \<Rightarrow> bool"
  getNodes :: "path_id \<Rightarrow> 'x heap \<Rightarrow> node list"
  removeNode :: "path_id \<Rightarrow> node \<Rightarrow> node list \<Rightarrow> 'x heap \<Rightarrow> bool \<times> 'x heap"
  isInTree :: "tree_id \<Rightarrow> node \<Rightarrow> 'x heap \<Rightarrow> bool"
  changeRoot :: "tree_id \<Rightarrow> node \<Rightarrow> 'x heap \<Rightarrow> bool \<times> 'x heap"
  rewireOnlyWithPathCheck ::
    "tree_id \<Rightarrow> node \<Rightarrow> connection list \<Rightarrow> real \<Rightarrow> node list \<Rightarrow> nat \<Rightarrow> 'x heap
       \<Rightarrow> bool \<times> connection list \<times> 'x heap"
  getMaximumDistance :: "tree_id \<Rightarrow> 'x heap \<Rightarrow> real"
  createSubtree :: "tree_id \<Rightarrow> node \<Rightarrow> node list \<Rightarrow> 'x heap \<Rightarrow> tree_id \<times> 'x heap"
  rewireWithPathCheck ::
    "tree_id \<Rightarrow> config \<Rightarrow> connection list \<Rightarrow> real \<Rightarrow> node list \<Rightarrow> 'x heap
       \<Rightarrow> node option \<times> connection list \<times> 'x heap"
  costToNode :: "tree_id \<Rightarrow> node \<Rightarrow> 'x heap \<Rightarrow> dbl"
  getConnectionToNode :: "tree_id \<Rightarrow> node \<Rightarrow> 'x heap \<Rightarrow> connection list"
  sample :: "local_informed_sampler \<Rightarrow> 'x heap \<Rightarrow> config \<times> 'x heap"
  checkPath :: "config \<Rightarrow> config \<Rightarrow> 'x heap \<Rightarrow> bool \<times> 'x heap"
  metrics_cost :: "config \<Rightarrow> config \<Rightarrow> 'x heap \<Rightarrow> dbl"

section \<open>The DRRT* replanner\<close>

text \<open>The members of \<^verbatim>\<open>DynamicRRTStar\<close> (inherited from \<^verbatim>\<open>ReplannerBase\<close>) that the
  modelled methods read or write.\<close>

record replanner =
  current_configuration_' :: config
  current_path_' :: path_id
  replanned_path_' :: path_id
  goal_node_' :: node
  success_' :: bool
  max_time_' :: real
  lb_' :: config
  ub_' :: config

subsection \<open>\<^verbatim>\<open>DynamicRRTStar::rewireBehindObs\<close>\<close>

text \<open>The variables the sampling loop of \<^verbatim>\<open>rewireBehindObs\<close> changes: the replanner (for
  \<^verbatim>\<open>success_\<close>), the heap, and the locals \<^verbatim>\<open>checked_connections\<close>,
  \<^verbatim>\<open>cost2goal\<close> and \<^verbatim>\<open>time\<close>.\<close>

record 'x loop_state =
  rp :: replanner
  hp :: "'x heap"
  checked_connections :: "connection list"
  cost2goal :: dbl
  time :: real

text \<open>
  The first half of the block that attaches \<^verbatim>\<open>replan_goal\<close> to
  \<^verbatim>\<open>new_node\<close>: if \<^verbatim>\<open>replan_goal->parent_connections_\<close> is not empty, its
  front connection is removed and the vector is cleared.
\<close>

definition detach_goal :: "node \<Rightarrow> 'x heap \<Rightarrow> 'x heap" where
  "detach_goal replan_goal h =
     (if parent_connections_' h replan_goal \<noteq> []
      then (let h1 = Connection_remove (hd (parent_connections_' h replan_goal)) h
            in h1\<lparr>parent_connections_' := (parent_connections_' h1)(replan_goal := [])\<rparr>)
      else h)"

text \<open>
  One iteration of the loop \<^verbatim>\<open>while(time<0.98*max_time)\<close>. The \<^verbatim>\<open>continue\<close> taken
  when the new node is farther than \<^verbatim>\<open>max_distance\<close> from the goal jumps to the loop
  condition: \<^verbatim>\<open>time\<close> is not updated on that way. Every other way through the body
  ends with \<^verbatim>\<open>time = (ros::WallTime::now()-tic).toSec()\<close>.
\<close>

definition phaseB_body ::
  "'x graph_core \<Rightarrow> real \<Rightarrow> tree_id \<Rightarrow> real \<Rightarrow> node list \<Rightarrow> node \<Rightarrow> real
     \<Rightarrow> local_informed_sampler \<Rightarrow> 'x loop_state \<Rightarrow> error + 'x loop_state" where
  "phaseB_body G tic subtree radius white_list replan_goal max_distance sampler s =
     (let (q, h1) = sample G sampler (hp s);
          (res, checked, h2) =
             rewireWithPathCheck G subtree q (checked_connections s) radius white_list h1;
          s2 = s\<lparr>hp := h2, checked_connections := checked\<rparr>
      in case res of
           None \<Rightarrow> Inr (s2\<lparr>time := wall_time h2 - tic\<rparr>)
         | Some new_node \<Rightarrow>
             if \<not> NDEBUG G \<and> length (parent_connections_' h2 replan_goal) \<noteq> 1
             then Inl Assertion_failed
             else
               (let distance_new_node_goal =
                      norm_diff (configuration h2 new_node) (configuration h2 replan_goal)
                in if distance_new_node_goal > max_distance then Inr s2
                   else
                     (let cost2new_node = costToNode G subtree new_node h2
                      in if dbl_less (dbl_add cost2new_node (Fin distance_new_node_goal))
                              (cost2goal s2)
                         then
                           (let (valid, h3) =
                                  checkPath G (configuration h2 new_node)
                                    (configuration h2 replan_goal) h2
                            in if valid
                               then
                                 (let h4 = detach_goal replan_goal h3;
                                      c = metrics_cost G (configuration h4 new_node)
                                            (configuration h4 replan_goal) h4;
                                      conn = \<lparr>parent = new_node, child = replan_goal, cost = c\<rparr>;
                                      h5 = Connection_add conn h4
                                  in Inr (s2\<lparr>hp := h5,
                                             cost2goal := dbl_add c cost2new_node,
                                             rp := (rp s2)\<lparr>success_' := True\<rparr>,
                                             time := wall_time h5 - tic\<rparr>))
                               else Inr (s2\<lparr>hp := h3, time := wall_time h3 - tic\<rparr>))
                         else Inr (s2\<lparr>time := wall_time h2 - tic\<rparr>))))"

text \<open>
  The loop itself. \<open>max_time\<close> is the local \<^verbatim>\<open>double max_time = 0.98*max_time_\<close>;
  the condition of the loop multiplies it by \<open>0.98\<close> once more, as the source does.
\<close>

fun phaseB_loop ::
  "nat \<Rightarrow> 'x graph_core \<Rightarrow> real \<Rightarrow> tree_id \<Rightarrow> real \<Rightarrow> node list \<Rightarrow> node \<Rightarrow> real
     \<Rightarrow> local_informed_sampler \<Rightarrow> real \<Rightarrow> 'x loop_state \<Rightarrow> (error + 'x loop_state) option" where
  "phaseB_loop 0 G tic subtree radius white_list replan_goal max_distance sampler max_time s =
     (if time s < 0.98 * max_time then None else Some (Inr s))"
| "phaseB_loop (Suc fuel) G tic subtree radius white_list replan_goal max_distance sampler
       max_time s =
     (if time s < 0.98 * max_time
      then (case phaseB_body G tic subtree radius white_list replan_goal max_distance sampler s of
              Inl e \<Rightarrow> Some (Inl e)
            | Inr s' \<Rightarrow>
                phaseB_loop fuel G tic subtree radius white_list replan_goal max_distance
                  sampler max_time s')
      else Some (Inr s))"

text \<open>
  The end of \<^verbatim>\<open>rewireBehindObs\<close>: on success the replanned path is built from the
  tree's connections to the goal node, handed to the solver, and the root is restored; the
  two assertions look \<^verbatim>\<open>replan_goal\<close> and \<^verbatim>\<open>node\<close> up in the nodes of the current
  path. The function returns \<^verbatim>\<open>success_\<close>.
\<close>

definition rewire_finish ::
  "'x graph_core \<Rightarrow> tree_id \<Rightarrow> node \<Rightarrow> node \<Rightarrow> node \<Rightarrow> 'x loop_state
     \<Rightarrow> error + bool \<times> replanner \<times> 'x heap" where
  "rewire_finish G tree root' node replan_goal s =
     (if success_' (rp s)
      then
        (let h = hp s;
             new_connections = getConnectionToNode G tree (goal_node_' (rp s)) h;
             new_path = next_path h;
             h1 = h\<lparr>paths := (paths h)(new_path :=
                                  \<lparr>connections = new_connections, path_tree = tree\<rparr>),
                    next_path := Suc new_path\<rparr>;
             r1 = (rp s)\<lparr>replanned_path_' := new_path\<rparr>;
             h2 = h1\<lparr>solver_start_tree := Some tree, solver_solution := Some new_path\<rparr>;
             (_, h3) = changeRoot G tree root' h2;
             current_path_nodes = getNodes G (current_path_' r1) h3
         in if \<not> NDEBUG G \<and> replan_goal \<notin> set current_path_nodes then Inl Assertion_failed
            else if \<not> NDEBUG G \<and> node \<notin> set current_path_nodes then Inl Assertion_failed
            else Inr (success_' r1, r1, h3))
      else Inr (success_' (rp s), rp s, hp s))"

definition rewireBehindObs ::
  "nat \<Rightarrow> 'x graph_core \<Rightarrow> node \<Rightarrow> replanner \<times> 'x heap
     \<Rightarrow> (error + bool \<times> replanner \<times> 'x heap) option" where
  "rewireBehindObs fuel G node rh =
     (let (r0, h) = rh;
          tic = wall_time h;
          r = r0\<lparr>success_' := False\<rparr>;
          tree = path_tree (paths h (current_path_' r));
          root' = tree_root h tree
      in if \<not> isInTree G tree node h then Some (Inr (False, r, h))
         else
           (case nodeBehindObs (connections (paths h (current_path_' r))) of
              None \<Rightarrow> Some (Inr (False, r, h))
            | Some replan_goal \<Rightarrow>
                (let radius = 1.5 * norm_diff (configuration h replan_goal) (configuration h node);
                     sampler = addBall (configuration h node) radius
                                 (LocalInformedSampler (configuration h node)
                                    (configuration h replan_goal) (lb_' r) (ub_' r) PInf);
                     white_list = getNodes G (current_path_' r) h;
                     (_, h1) = changeRoot G tree node h;
                     (_, checked, h2) =
                        rewireOnlyWithPathCheck G tree node [] radius white_list 2 h1;
                     max_distance = getMaximumDistance G tree h2;
                     black_list = [replan_goal];
                     (subtree, h3) = createSubtree G tree node black_list h2;
                     max_time = 0.98 * max_time_' r;
                     s0 = \<lparr>rp = r, hp = h3, checked_connections = checked,
                           cost2goal = PInf, time = wall_time h3 - tic\<rparr>
                 in case phaseB_loop fuel G tic subtree radius white_list replan_goal
                           max_distance sampler max_time s0 of
                      None \<Rightarrow> None
                    | Some (Inl e) \<Rightarrow> Some (Inl e)
                    | Some (Inr s) \<Rightarrow> Some (rewire_finish G tree root' node replan_goal s))))"

subsection \<open>\<^verbatim>\<open>DynamicRRTStar::replan\<close>\<close>

text \<open>
  The branch of \<^verbatim>\<open>replan\<close> taken when \<^verbatim>\<open>rewireBehindObs\<close> leaves
  \<^verbatim>\<open>success_\<close> false: \<^verbatim>\<open>changeRoot(root)\<close> (\<^verbatim>\<open>assert(0)\<close> when it fails), the
  assertion on the restored root, and \<^verbatim>\<open>removeNode(node_replan, void_list)\<close>, whose
  result decides the return value.
\<close>

definition replan_restore ::
  "'x graph_core \<Rightarrow> node \<Rightarrow> node \<Rightarrow> replanner \<times> 'x heap
     \<Rightarrow> error + bool \<times> replanner \<times> 'x heap" where
  "replan_restore G root' node_replan rh =
     (let (r, h) = rh;
          (restored, h1) = changeRoot G (path_tree (paths h (current_path_' r))) root' h
      in if \<not> NDEBUG G \<and> \<not> restored then Inl Assertion_failed
         else if \<not> NDEBUG G
                 \<and> \<not> ((root' \<noteq> node_replan
                        \<and> tree_root h1 (path_tree (paths h1 (current_path_' r))) \<noteq> node_replan)
                      \<or> root' = node_replan)
         then Inl Assertion_failed
         else
           (let (removed, h2) = removeNode G (current_path_' r) node_replan [] h1
            in if removed then Inr (False, r, h2) else Inr (True, r, h2)))"

text \<open>
  \<^verbatim>\<open>replan\<close>. The result \<open>Some (Inr (b, r, h))\<close> is the return value \<open>b\<close> with the
  replanner and the heap as the call leaves them. The source dereferences the result of
  \<^verbatim>\<open>findConnection\<close> at once (to print it): a null result is the error
  \<open>Null_pointer\<close>.
\<close>

definition replan ::
  "nat \<Rightarrow> 'x graph_core \<Rightarrow> replanner \<times> 'x heap
     \<Rightarrow> (error + bool \<times> replanner \<times> 'x heap) option" where
  "replan fuel G rh =
     (let (r0, h) = rh;
          r = r0\<lparr>success_' := False\<rparr>;
          cost_from_conf = getCostFromConf G (current_path_' r) (current_configuration_' r) h
      in if cost_from_conf = PInf
         then
           (let root' = tree_root h (path_tree (paths h (current_path_' r)))
            in case findConnection G (current_path_' r) (current_configuration_' r) h of
                 None \<Rightarrow> Some (Inl Null_pointer)
               | Some conn \<Rightarrow>
                   (let (node_replan, h1) =
                          addNodeAtCurrentConfig G (current_path_' r) (current_configuration_' r)
                            (Some conn) True h
                    in case rewireBehindObs fuel G node_replan (r, h1) of
                         None \<Rightarrow> None
                       | Some (Inl e) \<Rightarrow> Some (Inl e)
                       | Some (Inr (_, r2, h2)) \<Rightarrow>
                           if success_' r2 then Some (Inr (True, r2, h2))
                           else Some (replan_restore G root' node_replan (r2, h2))))
         else if \<not> NDEBUG G
                 \<and> \<not> isValidFromConf G (current_path_' r) (current_configuration_' r) h
         then Some (Inl Assertion_failed)
         else Some (Inr (False, r\<lparr>success_' := False, replanned_path_' := current_path_' r\<rparr>, h)))"

section \<open>The replanner managers\<close>

subsection \<open>Scene messages, checker and metrics\<close>

text \<open>\<^verbatim>\<open>moveit_msgs::CollisionObject\<close>: its \<^verbatim>\<open>id\<close> and the three coordinates of
  \<^verbatim>\<open>pose.position\<close>.\<close>

record collision_object =
  object_id :: string
  pos_x :: real
  pos_y :: real
  pos_z :: real

record planning_scene_world =
  collision_objects :: "collision_object list"

record planning_scene =
  world :: planning_scene_world
  is_diff :: bool

text \<open>An \<^verbatim>\<open>Eigen::Matrix<double,3,Eigen::Dynamic>\<close> is the list of its columns.\<close>

type_synonym vector3 = "real \<times> real \<times> real"
type_synonym matrix3xN = "vector3 list"

text \<open>
  The SSM estimator keeps the obstacle positions and the names of the points of interest it
  was given; \<^verbatim>\<open>LengthPenaltyMetrics\<close> holds an estimator. A collision checker is
  represented by the planning scene messages it has received, the latest first.
\<close>

record ssm_estimator =
  ssm_obstacles_positions :: matrix3xN
  ssm_poi_names :: "string list"

record length_penalty_metrics =
  ssm :: ssm_estimator

type_synonym checker = "planning_scene list"

definition setPlanningSceneMsg :: "planning_scene \<Rightarrow> checker \<Rightarrow> checker" where
  "setPlanningSceneMsg msg c = msg # c"

definition setObstaclesPositions :: "matrix3xN \<Rightarrow> length_penalty_metrics \<Rightarrow> length_penalty_metrics" where
  "setObstaclesPositions M metr = metr\<lparr>ssm := (ssm metr)\<lparr>ssm_obstacles_positions := M\<rparr>\<rparr>"

datatype log_entry = ROS_ERROR string | ROS_WARN string | ROS_INFO string

subsection \<open>The members of the managers\<close>

text \<open>
  The members of \<^verbatim>\<open>ReplannerManagerBase\<close> that the modelled methods use. \<open>'r\<close> is the
  replanner and \<open>'p\<close> what a \<^verbatim>\<open>PathPtr\<close> of the manager stands for. The members
  \<^verbatim>\<open>current_path_\<close> and \<^verbatim>\<open>current_configuration_\<close> carry the prefix \<open>mgr\<close>, since
  the replanner has members of the same names. \<open>console\<close> is the output of the
  \<^verbatim>\<open>ROS_ERROR\<close>, \<^verbatim>\<open>ROS_WARN\<close> and \<^verbatim>\<open>ROS_INFO\<close> calls. The mutexes are
  not modelled: each method is modelled as it runs on its own thread, without interference.
\<close>

record ('r, 'p) replanner_manager =
  replanner_' :: "'r option"
  solver_' :: nat
  dt_replan_' :: real
  configuration_replan_' :: config
  current_path_replanning_' :: 'p
  mgr_current_path_' :: 'p
  current_path_shared_' :: 'p
  current_path_sync_needed_' :: bool
  mgr_current_configuration_' :: config
  goal_tol_' :: real
  stop_' :: bool
  checker_cc_' :: checker
  planning_scn_cc_' :: nat
  group_name_' :: string
  planning_scene_msg_' :: planning_scene
  planning_scene_diff_msg_' :: planning_scene
  collision_checker_thread_frequency_' :: real
  display_timing_warning_' :: bool
  console :: "log_entry list"

text \<open>The members \<^verbatim>\<open>ReplannerManagerMARS\<close> and \<^verbatim>\<open>ReplannerManagerMARSHA\<close> add.\<close>

record ('r, 'p) marsha_manager = "('r, 'p) replanner_manager" +
  other_paths_' :: "'p list"
  other_paths_shared_' :: "'p list"
  other_paths_sync_needed_' :: "bool list"
  reverse_start_nodes_' :: bool
  full_net_search_' :: bool
  ha_metrics_' :: "length_penalty_metrics option"
  unaware_obstacles_' :: "string list"
  poi_names_' :: "string list"
  obstalces_positions_' :: matrix3xN

subsection \<open>\<^verbatim>\<open>ReplannerManagerDRRTStar::startReplannedPathFromNewCurrentConf\<close>\<close>

text \<open>
  The manager's replanner is a \<open>replanner\<close> and its paths are addresses in the heap.
  \<^verbatim>\<open>conn\<close> is a null pointer when it is passed to \<^verbatim>\<open>addNodeAtCurrentConfig\<close>.
  The method writes the heap only.
\<close>

definition startReplannedPathFromNewCurrentConf ::
  "'x graph_core \<Rightarrow> config \<Rightarrow> (replanner, path_id) replanner_manager \<times> 'x heap
     \<Rightarrow> error + (replanner, path_id) replanner_manager \<times> 'x heap" where
  "startReplannedPathFromNewCurrentConf G conf mh =
     (let (m, h) = mh
      in case replanner_' m of
           None \<Rightarrow> Inl Null_pointer
         | Some r \<Rightarrow>
             (let current_path = current_path_' r;
                  replanned_path = replanned_path_' r;
                  tree = path_tree (paths h current_path);
                  (current_node, h1) = addNodeAtCurrentConfig G current_path conf None True h;
                  (_, h2) = changeRoot G tree current_node h1;
                  new_conns = getConnectionToNode G tree (goal_node_' r) h2
              in Inr (m, h2\<lparr>paths := (paths h2)(replanned_path :=
                                   (paths h2 replanned_path)\<lparr>connections := new_conns\<rparr>)\<rparr>)))"

subsection \<open>\<^verbatim>\<open>ReplannerManagerMARSHA::initReplanner\<close>\<close>

text \<open>
  The class \<^verbatim>\<open>MARSHA\<close> (the replanner) is not in the sources. An object of the class is
  represented by what the manager hands to it: the six arguments of the constructor and,
  for each of \<^verbatim>\<open>reverseStartNodes\<close>, \<^verbatim>\<open>setFullNetSearch\<close> and \<^verbatim>\<open>setDisp\<close>,
  the argument of its last call: \<open>Some b\<close> after a call with the argument \<open>b\<close>, and
  \<open>None\<close> as long as the method was not called (what the constructor itself chooses for
  the flags is not known). The display handle is the pair of arguments it is made from.
\<close>

record 'p marsha_replanner =
  rp_current_configuration :: config
  rp_current_path :: 'p
  rp_max_time :: real
  rp_solver :: nat
  rp_other_paths :: "'p list"
  rp_ha_metrics :: length_penalty_metrics
  rp_reverse_start_nodes :: "bool option"
  rp_full_net_search :: "bool option"
  rp_disp :: "(nat \<times> string) option"

definition MARSHA ::
  "config \<Rightarrow> 'p \<Rightarrow> real \<Rightarrow> nat \<Rightarrow> 'p list \<Rightarrow> length_penalty_metrics \<Rightarrow> 'p marsha_replanner" where
  "MARSHA current_configuration current_path max_time solver other_paths ha_metrics =
     \<lparr>rp_current_configuration = current_configuration, rp_current_path = current_path,
      rp_max_time = max_time, rp_solver = solver, rp_other_paths = other_paths,
      rp_ha_metrics = ha_metrics, rp_reverse_start_nodes = None,
      rp_full_net_search = None, rp_disp = None\<rparr>"

definition reverseStartNodes :: "bool \<Rightarrow> 'p marsha_replanner \<Rightarrow> 'p marsha_replanner" where
  "reverseStartNodes b r = r\<lparr>rp_reverse_start_nodes := Some b\<rparr>"

definition setFullNetSearch :: "bool \<Rightarrow> 'p marsha_replanner \<Rightarrow> 'p marsha_replanner" where
  "setFullNetSearch b r = r\<lparr>rp_full_net_search := Some b\<rparr>"

definition setDisp :: "nat \<times> string \<Rightarrow> 'p marsha_replanner \<Rightarrow> 'p marsha_replanner" where
  "setDisp d r = r\<lparr>rp_disp := Some d\<rparr>"

definition initReplanner ::
  "('p marsha_replanner, 'p) marsha_manager \<Rightarrow> error + ('p marsha_replanner, 'p) marsha_manager" where
  "initReplanner m =
     (case ha_metrics_' m of
        None \<Rightarrow> Inl (Runtime_error ''HA metrics not defined!'')
      | Some ha \<Rightarrow>
          (let time_for_repl = 0.9 * dt_replan_' m;
               replanner = MARSHA (configuration_replan_' m) (mgr_current_path_' m) time_for_repl
                             (solver_' m) (other_paths_' m) ha;
               replanner1 = reverseStartNodes (reverse_start_nodes_' m) replanner;
               m1 = (if full_net_search_' m
                     then m\<lparr>console := console m @ [ROS_WARN ''full net search not available for MARSHA'']\<rparr>
                     else m);
               m2 = m1\<lparr>full_net_search_' := False\<rparr>;
               replanner2 = setFullNetSearch (full_net_search_' m2) replanner1;
               m3 = m2\<lparr>replanner_' := Some replanner2\<rparr>;
               disp = (planning_scn_cc_' m3, group_name_' m3)
           in Inr (m3\<lparr>replanner_' := map_option (setDisp disp) (replanner_' m3)\<rparr>)))"

subsection \<open>\<^verbatim>\<open>ReplannerManagerMARSHA::updateObstaclesPositions\<close>\<close>

text \<open>
  The loop over \<^verbatim>\<open>world.collision_objects\<close>: an object whose identifier
  \<^verbatim>\<open>std::find\<close> does not find in \<^verbatim>\<open>unaware_obstacles_\<close> gets a new last column.
\<close>

fun updateObstaclesPositions_loop ::
  "string list \<Rightarrow> collision_object list \<Rightarrow> matrix3xN \<Rightarrow> matrix3xN" where
  "updateObstaclesPositions_loop unaware [] obstacles_positions = obstacles_positions"
| "updateObstaclesPositions_loop unaware (obj # objs) obstacles_positions =
     (if object_id obj \<notin> set unaware
      then updateObstaclesPositions_loop unaware objs
             (obstacles_positions @ [(pos_x obj, pos_y obj, pos_z obj)])
      else updateObstaclesPositions_loop unaware objs obstacles_positions)"

definition updateObstaclesPositions ::
  "('r, 'p) marsha_manager \<Rightarrow> planning_scene_world \<Rightarrow> matrix3xN" where
  "updateObstaclesPositions m w =
     updateObstaclesPositions_loop (unaware_obstacles_' m) (collision_objects w) []"

subsection \<open>\<^verbatim>\<open>ReplannerManagerMARSHA::collisionCheckThread\<close>\<close>

text \<open>
  What the thread gets from outside in one cycle: \<^verbatim>\<open>ros::ok()\<close>, the outcome of
  \<^verbatim>\<open>plannning_scene_client_.call(ps_srv)\<close> (\<open>None\<close> when the call fails, otherwise
  \<^verbatim>\<open>ps_srv.response.scene\<close>) and the duration of the cycle the wall clock gives.
\<close>

record cycle_input =
  ros_ok :: bool
  srv_response :: "planning_scene option"
  cycle_duration :: real

text \<open>
  The build mode (\<open>cc_NDEBUG\<close>: assertions are compiled out) and the methods of paths,
  of the base manager and of the replanner that the thread calls and that are not in the
  sources, as parameters. A path is a value of type \<open>'p\<close>; the checker
  and the metrics a path copy was given by \<^verbatim>\<open>setChecker\<close> and \<^verbatim>\<open>setMetrics\<close> are
  passed to the operation that uses them.
\<close>

record 'p cc_env =
  cc_NDEBUG :: bool
  path_clone :: "'p \<Rightarrow> 'p"
  checkPathTask :: "checker \<Rightarrow> length_penalty_metrics \<Rightarrow> 'p \<Rightarrow> 'p"
  path_findConnection :: "'p \<Rightarrow> config \<Rightarrow> int"
  path_isValidFromConf :: "'p \<Rightarrow> config \<Rightarrow> int \<Rightarrow> checker \<Rightarrow> length_penalty_metrics \<Rightarrow> 'p"
  updatePathsCost ::
    "'p \<Rightarrow> 'p list \<Rightarrow> ('p marsha_replanner, 'p) marsha_manager
       \<Rightarrow> ('p marsha_replanner, 'p) marsha_manager"
  goal_configuration :: "'p marsha_replanner \<Rightarrow> config"

text \<open>The local variables of the thread. The \<open>i\<close>-th path copy was given the \<open>i\<close>-th
  checker and the \<open>i\<close>-th metrics when it was made.\<close>

record 'p cc_locals =
  current_configuration_copy :: config
  planning_scene_msg :: planning_scene
  obstacles_positions :: matrix3xN
  metrics_current_path :: length_penalty_metrics
  current_path_copy :: 'p
  other_paths_copy :: "'p list"
  checkers :: "checker list"
  metrics :: "length_penalty_metrics list"
  other_path_size :: int

datatype flow = Leave_loop | Next_cycle

text \<open>
  The statements of the thread before its loop. \<^verbatim>\<open>ha_metrics_\<close> is dereferenced: a
  null handle is the error \<open>Null_pointer\<close>. The local \<^verbatim>\<open>ssm\<close> is made by
  \<^verbatim>\<open>std::make_shared<SSM15066Estimator2D>\<close>, so the \<^verbatim>\<open>typeid\<close> test that follows
  never throws. \<^verbatim>\<open>metrics_current_path\<close> holds \<^verbatim>\<open>ssm\<close> itself, the metrics of the
  other paths hold clones of it.
\<close>

definition cc_prologue ::
  "'p cc_env \<Rightarrow> ('p marsha_replanner, 'p) marsha_manager \<Rightarrow> error + 'p cc_locals" where
  "cc_prologue E m =
     (case ha_metrics_' m of
        None \<Rightarrow> Inl Null_pointer
      | Some ha \<Rightarrow>
          Inr \<lparr>current_configuration_copy = [],
               planning_scene_msg = \<lparr>world = \<lparr>collision_objects = []\<rparr>, is_diff = False\<rparr>,
               obstacles_positions = [],
               metrics_current_path = \<lparr>ssm = ssm ha\<rparr>,
               current_path_copy = path_clone E (current_path_shared_' m),
               other_paths_copy = map (path_clone E) (other_paths_shared_' m),
               checkers = map (\<lambda>p. checker_cc_' m) (other_paths_shared_' m),
               metrics = map (\<lambda>p. \<lparr>ssm = ssm ha\<rparr>) (other_paths_shared_' m),
               other_path_size = int (length (other_paths_shared_' m))\<rparr>)"

text \<open>
  The update of the planning scene, under \<^verbatim>\<open>scene_mtx_\<close>: the checkers get the message
  with the whole world, the metrics get the positions \<open>updateObstaclesPositions\<close> returns.
\<close>

definition cc_scene_update ::
  "planning_scene \<Rightarrow> ('p marsha_replanner, 'p) marsha_manager \<times> 'p cc_locals
     \<Rightarrow> error + ('p marsha_replanner, 'p) marsha_manager \<times> 'p cc_locals" where
  "cc_scene_update resp ml =
     (let (m, l) = ml;
          l1 = l\<lparr>planning_scene_msg := (planning_scene_msg l)\<lparr>world := world resp, is_diff := True\<rparr>\<rparr>;
          l2 = l1\<lparr>obstacles_positions := updateObstaclesPositions m (world (planning_scene_msg l1))\<rparr>;
          m1 = m\<lparr>checker_cc_' := setPlanningSceneMsg (planning_scene_msg l2) (checker_cc_' m)\<rparr>;
          l3 = l2\<lparr>metrics_current_path :=
                    setObstaclesPositions (obstacles_positions l2) (metrics_current_path l2)\<rparr>;
          n = length (checkers l3)
      in if length (metrics l3) < n then Inl Out_of_range
         else Inr (m1, l3\<lparr>checkers := map (setPlanningSceneMsg (planning_scene_msg l3)) (checkers l3),
                          metrics := map (setObstaclesPositions (obstacles_positions l3))
                                       (take n (metrics l3)) @ drop n (metrics l3)\<rparr>))"

text \<open>The loop \<^verbatim>\<open>for(i=0; i<other_paths_shared_.size(); i++)\<close> that renews the copies
  whose flag is set: \<open>sync_other_paths E i k\<close> runs it for the \<open>k\<close> indices from \<open>i\<close> on.\<close>

fun sync_other_paths ::
  "'p cc_env \<Rightarrow> nat \<Rightarrow> nat \<Rightarrow> ('p marsha_replanner, 'p) marsha_manager \<times> 'p cc_locals
     \<Rightarrow> error + ('p marsha_replanner, 'p) marsha_manager \<times> 'p cc_locals" where
  "sync_other_paths E i 0 ml = Inr ml"
| "sync_other_paths E i (Suc k) ml =
     (let (m, l) = ml
      in if length (other_paths_sync_needed_' m) \<le> i then Inl Out_of_range
         else if other_paths_sync_needed_' m ! i
         then (if length (other_paths_copy l) \<le> i \<or> length (checkers l) \<le> i
                    \<or> length (metrics l) \<le> i
               then Inl Out_of_range
               else sync_other_paths E (Suc i) k
                      (m\<lparr>other_paths_sync_needed_' := (other_paths_sync_needed_' m)[i := False]\<rparr>,
                       l\<lparr>other_paths_copy :=
                           (other_paths_copy l)[i := path_clone E (other_paths_shared_' m ! i)]\<rparr>))
         else sync_other_paths E (Suc i) k (m, l))"

text \<open>The update of the copies, under \<^verbatim>\<open>trj_mtx_\<close>, \<^verbatim>\<open>paths_mtx_\<close> and
  \<^verbatim>\<open>other_paths_mtx_\<close>.\<close>

definition cc_sync ::
  "'p cc_env \<Rightarrow> ('p marsha_replanner, 'p) marsha_manager \<times> 'p cc_locals
     \<Rightarrow> error + ('p marsha_replanner, 'p) marsha_manager \<times> 'p cc_locals" where
  "cc_sync E ml =
     (let (m, l) = ml;
          l1 = l\<lparr>current_configuration_copy := mgr_current_configuration_' m\<rparr>;
          (m1, l2) = (if current_path_sync_needed_' m
                      then (m\<lparr>current_path_sync_needed_' := False\<rparr>,
                            l1\<lparr>current_path_copy := path_clone E (current_path_shared_' m)\<rparr>)
                      else (m, l1))
      in if other_path_size l2 < int (length (other_paths_shared_' m1))
         then (if \<not> cc_NDEBUG E
                    \<and> other_path_size l2 \<noteq> int (length (other_paths_shared_' m1)) - 1
               then Inl Assertion_failed
               else
                 (let copies = other_paths_copy l2 @ [path_clone E (last (other_paths_shared_' m1))];
                      l3 = l2\<lparr>other_paths_copy := copies,
                              checkers := checkers l2 @ [checker_cc_' m1],
                              metrics := metrics l2 @ [\<lparr>ssm = ssm (metrics_current_path l2)\<rparr>],
                              other_path_size := int (length copies)\<rparr>
                  in sync_other_paths E 0 (length (other_paths_shared_' m1)) (m1, l3)))
         else sync_other_paths E 0 (length (other_paths_shared_' m1)) (m1, l2))"

text \<open>
  The collision check of the copies and the write-back. The tasks started for the other
  paths finish in either case (on \<^verbatim>\<open>continue\<close> their futures are destroyed, which
  waits for them). When \<^verbatim>\<open>conn_idx\<close> is negative the cycle ends by \<^verbatim>\<open>continue\<close>:
  no write-back, no sleep.
\<close>

definition cc_check ::
  "'p cc_env \<Rightarrow> cycle_input \<Rightarrow> planning_scene
     \<Rightarrow> ('p marsha_replanner, 'p) marsha_manager \<times> 'p cc_locals
     \<Rightarrow> flow \<times> ('p marsha_replanner, 'p) marsha_manager \<times> 'p cc_locals" where
  "cc_check E inp resp ml =
     (let (m, l) = ml;
          checked = map (\<lambda>(p, c, metr). checkPathTask E c metr p)
                      (zip (other_paths_copy l) (zip (checkers l) (metrics l)));
          l1 = l\<lparr>other_paths_copy := checked\<rparr>;
          conn_idx = path_findConnection E (current_path_copy l1) (current_configuration_copy l1)
      in if conn_idx < 0 then (Next_cycle, m, l1)
         else
           (let l2 = l1\<lparr>current_path_copy :=
                         path_isValidFromConf E (current_path_copy l1)
                           (current_configuration_copy l1) conn_idx (checker_cc_' m)
                           (metrics_current_path l1)\<rparr>;
                m1 = updatePathsCost E (current_path_copy l2) (other_paths_copy l2) m;
                m2 = m1\<lparr>planning_scene_msg_' := (planning_scene_msg_' m1)\<lparr>world := world resp\<rparr>,
                        planning_scene_diff_msg_' := planning_scene_msg l2,
                        obstalces_positions_' := obstacles_positions l2\<rparr>;
                f = collision_checker_thread_frequency_' m2;
                m3 = (if f \<noteq> 0 \<and> cycle_duration inp > 1 / f \<and> display_timing_warning_' m2
                      then m2\<lparr>console := console m2
                                @ [ROS_WARN ''Collision checking thread time expired'']\<rparr>
                      else m2)
            in (Next_cycle, m3, l2)))"

text \<open>One cycle of the loop \<^verbatim>\<open>while((not stop_) && ros::ok())\<close>.\<close>

definition cc_cycle ::
  "'p cc_env \<Rightarrow> cycle_input \<Rightarrow> ('p marsha_replanner, 'p) marsha_manager \<times> 'p cc_locals
     \<Rightarrow> error + flow \<times> ('p marsha_replanner, 'p) marsha_manager \<times> 'p cc_locals" where
  "cc_cycle E inp ml =
     (let (m, l) = ml
      in case srv_response inp of
           None \<Rightarrow>
             Inr (Leave_loop,
                  m\<lparr>console := console m @ [ROS_ERROR ''call to srv not ok''], stop_' := True\<rparr>, l)
         | Some resp \<Rightarrow>
             (case cc_scene_update resp (m, l) of
                Inl e \<Rightarrow> Inl e
              | Inr ml1 \<Rightarrow>
                  (case cc_sync E ml1 of
                     Inl e \<Rightarrow> Inl e
                   | Inr (m2, l2) \<Rightarrow>
                       (case replanner_' m2 of
                          None \<Rightarrow> Inl Null_pointer
                        | Some r \<Rightarrow>
                            if norm_diff (current_configuration_copy l2) (goal_configuration E r)
                                 < goal_tol_' m2
                            then Inr (Leave_loop, m2\<lparr>stop_' := True\<rparr>, l2)
                            else Inr (cc_check E inp resp (m2, l2))))))"

text \<open>The loop: one input per cycle. With no input left the result is \<open>None\<close>, unless
  \<^verbatim>\<open>stop_\<close> is set (then \<^verbatim>\<open>ros::ok()\<close> is not evaluated and the loop is over).\<close>

fun collisionCheckLoop ::
  "'p cc_env \<Rightarrow> cycle_input list \<Rightarrow> ('p marsha_replanner, 'p) marsha_manager \<times> 'p cc_locals
     \<Rightarrow> (error + ('p marsha_replanner, 'p) marsha_manager \<times> 'p cc_locals) option" where
  "collisionCheckLoop E [] ml = (if stop_' (fst ml) then Some (Inr ml) else None)"
| "collisionCheckLoop E (inp # inps) ml =
     (if \<not> stop_' (fst ml) \<and> ros_ok inp
      then (case cc_cycle E inp ml of
              Inl e \<Rightarrow> Some (Inl e)
            | Inr (Leave_loop, ml') \<Rightarrow> Some (Inr ml')
            | Inr (Next_cycle, ml') \<Rightarrow> collisionCheckLoop E inps ml')
      else Some (Inr ml))"

definition collisionCheckThread ::
  "'p cc_env \<Rightarrow> cycle_input list \<Rightarrow> ('p marsha_replanner, 'p) marsha_manager
     \<Rightarrow> (error + ('p marsha_replanner, 'p) marsha_manager) option" where
  "collisionCheckThread E inps m =
     (case cc_prologue E m of
        Inl e \<Rightarrow> Some (Inl e)
      | Inr l \<Rightarrow>
          (case collisionCheckLoop E inps (m, l) of
             None \<Rightarrow> None
           | Some (Inl e) \<Rightarrow> Some (Inl e)
           | Some (Inr (m', l')) \<Rightarrow>
               Some (Inr (m'\<lparr>console := console m' @ [ROS_INFO ''Collision check thread is over'']\<rparr>))))"

section \<open>Example inputs\<close>

text \<open>A path of three connections \<open>0 \<rightarrow> 1 \<rightarrow> 2 \<rightarrow> 3\<close> whose first connection is obstructed.\<close>

definition path_first_obstructed :: "connection list" where
  "path_first_obstructed =
     [\<lparr>parent = 0, child = 1, cost = PInf\<rparr>,
      \<lparr>parent = 1, child = 2, cost = Fin 1\<rparr>,
      \<lparr>parent = 2, child = 3, cost = Fin 1\<rparr>]"

text \<open>The same path with only its last connection obstructed.\<close>

definition path_last_obstructed :: "connection list" where
  "path_last_obstructed =
     [\<lparr>parent = 0, child = 1, cost = Fin 1\<rparr>,
      \<lparr>parent = 1, child = 2, cost = Fin 1\<rparr>,
      \<lparr>parent = 2, child = 3, cost = PInf\<rparr>]"

subsection \<open>A small planning library\<close>

text \<open>
  A stand-in for \<^verbatim>\<open>graph_core\<close> on which the model can be run: configurations have
  one coordinate, new nodes get the addresses \<open>9\<close> (the node at the current configuration)
  and \<open>7\<close> (the node a rewiring adds). It only serves to evaluate the model on examples;
  the theorems on the replanner hold for every library.
  \<^item> \<open>toy_addNodeAtCurrentConfig\<close> splits the first connection of the path at the given
    configuration; \<open>toy_removeNode\<close> joins the two halves again, unless the node is
    white-listed or the root.
  \<^item> \<open>toy_rewireWithPathCheck\<close> places node \<open>7\<close> at the sample and takes one second.
  \<^item> The sampler returns the configuration \<open>q\<close> the library was built with and counts the
    samples it has drawn in \<open>library_state\<close>.
\<close>

definition toy_getNodes :: "path_id \<Rightarrow> nat heap \<Rightarrow> node list" where
  "toy_getNodes p h =
     (case connections (paths h p) of [] \<Rightarrow> [] | c # cs \<Rightarrow> parent c # map child (c # cs))"

definition toy_getCostFromConf :: "path_id \<Rightarrow> config \<Rightarrow> nat heap \<Rightarrow> dbl" where
  "toy_getCostFromConf p q h = foldr dbl_add (map cost (connections (paths h p))) (Fin 0)"

definition toy_addNodeAtCurrentConfig ::
  "path_id \<Rightarrow> config \<Rightarrow> connection option \<Rightarrow> bool \<Rightarrow> nat heap \<Rightarrow> node \<times> nat heap" where
  "toy_addNodeAtCurrentConfig p q conn rewire h =
     (case connections (paths h p) of
        [] \<Rightarrow> (9, h)
      | c # cs \<Rightarrow>
          (let c1 = \<lparr>parent = parent c, child = 9, cost = cost c\<rparr>;
               c2 = \<lparr>parent = 9, child = child c, cost = cost c\<rparr>;
               h1 = h\<lparr>configuration := (configuration h)(9 := q)\<rparr>;
               h2 = Connection_add c2 (Connection_add c1 (Connection_remove c h1))
           in (9, h2\<lparr>paths := (paths h2)(p := (paths h2 p)\<lparr>connections := c1 # c2 # cs\<rparr>)\<rparr>)))"

definition toy_removeNode ::
  "path_id \<Rightarrow> node \<Rightarrow> node list \<Rightarrow> nat heap \<Rightarrow> bool \<times> nat heap" where
  "toy_removeNode p n white_list h =
     (case connections (paths h p) of
        c1 # c2 # cs \<Rightarrow>
          if child c1 = n \<and> parent c2 = n \<and> n \<notin> set white_list
               \<and> tree_root h (path_tree (paths h p)) \<noteq> n
          then (let c = \<lparr>parent = parent c1, child = child c2, cost = cost c1\<rparr>;
                    h1 = Connection_add c (Connection_remove c2 (Connection_remove c1 h))
                in (True, h1\<lparr>paths := (paths h1)(p := (paths h1 p)\<lparr>connections := c # cs\<rparr>)\<rparr>))
          else (False, h)
      | _ \<Rightarrow> (False, h))"

definition toy_library :: "config \<Rightarrow> nat graph_core" where
  "toy_library q =
     \<lparr>NDEBUG = False,
      getCostFromConf = toy_getCostFromConf,
      findConnection = (\<lambda>p c h. case connections (paths h p) of [] \<Rightarrow> None | x # xs \<Rightarrow> Some x),
      addNodeAtCurrentConfig = toy_addNodeAtCurrentConfig,
      isValidFromConf = (\<lambda>p c h. toy_getCostFromConf p c h \<noteq> PInf),
      getNodes = toy_getNodes,
      removeNode = toy_removeNode,
      isInTree = (\<lambda>t n h. n = tree_root h t \<or> parent_connections_' h n \<noteq> []),
      changeRoot = (\<lambda>t n h. (True, h\<lparr>tree_root := (tree_root h)(t := n)\<rparr>)),
      rewireOnlyWithPathCheck = (\<lambda>t n checked radius white_list depth h. (False, checked, h)),
      getMaximumDistance = (\<lambda>t h. 1),
      createSubtree = (\<lambda>t n black_list h. (Suc t, h\<lparr>tree_root := (tree_root h)(Suc t := n)\<rparr>)),
      rewireWithPathCheck = (\<lambda>t c checked radius white_list h.
         (Some 7, checked, h\<lparr>configuration := (configuration h)(7 := c),
                               wall_time := wall_time h + 1\<rparr>)),
      costToNode = (\<lambda>t n h. Fin (norm_diff (configuration h (tree_root h t)) (configuration h n))),
      getConnectionToNode = (\<lambda>t n h. parent_connections_' h n),
      sample = (\<lambda>s h. (q, h\<lparr>library_state := Suc (library_state h)\<rparr>)),
      checkPath = (\<lambda>a b h. (True, h)),
      metrics_cost = (\<lambda>a b h. Fin (norm_diff a b))\<rparr>"

text \<open>
  A heap with the nodes \<open>0, 1, 2, 3\<close> at the configurations \<open>0, 1, 2, 3\<close>, one tree
  (address \<open>0\<close>, rooted at node \<open>0\<close>) and three path objects on it: path \<open>0\<close>, the
  replanner's current path \<open>0 \<rightarrow> 1 \<rightarrow> 2 \<rightarrow> 3\<close> with the connections \<open>cs\<close>; path \<open>1\<close>,
  the replanner's replanned path; path \<open>2\<close>, the path the manager shares with its threads.
\<close>

definition toy_heap :: "connection list \<Rightarrow> nat heap" where
  "toy_heap cs =
     \<lparr>configuration = (\<lambda>n. [real n]),
      parent_connections_' = (\<lambda>n. filter (\<lambda>c. child c = n) cs),
      child_connections_' = (\<lambda>n. filter (\<lambda>c. parent c = n) cs),
      tree_root = (\<lambda>t. 0),
      paths = (\<lambda>p. \<lparr>connections = cs, path_tree = 0\<rparr>),
      next_path = 3,
      solver_start_tree = None,
      solver_solution = None,
      wall_time = 100,
      library_state = 0\<rparr>"

definition path_second_obstructed :: "connection list" where
  "path_second_obstructed =
     [\<lparr>parent = 0, child = 1, cost = Fin 1\<rparr>,
      \<lparr>parent = 1, child = 2, cost = PInf\<rparr>,
      \<lparr>parent = 2, child = 3, cost = Fin 1\<rparr>]"

definition path_free :: "connection list" where
  "path_free =
     [\<lparr>parent = 0, child = 1, cost = Fin 1\<rparr>,
      \<lparr>parent = 1, child = 2, cost = Fin 1\<rparr>,
      \<lparr>parent = 2, child = 3, cost = Fin 1\<rparr>]"

text \<open>A replanner at the configuration \<open>0.5\<close> with the time budget \<open>budget\<close>.\<close>

definition toy_replanner :: "real \<Rightarrow> replanner" where
  "toy_replanner budget =
     \<lparr>current_configuration_' = [1 / 2], current_path_' = 0, replanned_path_' = 1,
      goal_node_' = 3, success_' = False, max_time_' = budget, lb_' = [0], ub_' = [3]\<rparr>"

text \<open>The sampler \<^verbatim>\<open>rewireBehindObs\<close> builds between the configurations \<open>0.5\<close> and
  \<open>3\<close>, and the variables of its loop before the first iteration, taken at the wall time
  \<open>100\<close> with the budget of one second.\<close>

definition toy_sampler :: local_informed_sampler where
  "toy_sampler = addBall [1 / 2] (15 / 4) (LocalInformedSampler [1 / 2] [3] [0] [3] PInf)"




text \<open>The state of the loop after \<open>n\<close> iterations of the library \<open>toy_library [10]\<close>,
  whose samples are far from the goal: \<open>n\<close> seconds have passed and \<open>n\<close> samples were
  drawn, and the local \<^verbatim>\<open>time\<close> still holds its first reading.\<close>

definition toy_far_state :: "nat \<Rightarrow> nat loop_state" where
  "toy_far_state n =
     \<lparr>rp = toy_replanner 1,
      hp = (toy_heap path_second_obstructed)
             \<lparr>configuration := (\<lambda>k. [real k])(7 := [10]),
              wall_time := 100 + real n, library_state := n\<rparr>,
      checked_connections = [], cost2goal = PInf, time = 0\<rparr>"

text \<open>A DRRT* manager whose replanner plans on path \<open>0\<close> and answers in path \<open>1\<close>, while
  the path the manager follows and shares with its threads is path \<open>2\<close>.\<close>

definition toy_drrt_manager :: "(replanner, path_id) replanner_manager" where
  "toy_drrt_manager =
     \<lparr>replanner_' = Some (toy_replanner 1), solver_' = 0, dt_replan_' = 1 / 2,
      configuration_replan_' = [1 / 2], current_path_replanning_' = 0, mgr_current_path_' = 2,
      current_path_shared_' = 2, current_path_sync_needed_' = False,
      mgr_current_configuration_' = [1 / 2], goal_tol_' = 1 / 1000, stop_' = False,
      checker_cc_' = [], planning_scn_cc_' = 0, group_name_' = ''arm'',
      planning_scene_msg_' = \<lparr>world = \<lparr>collision_objects = []\<rparr>, is_diff = False\<rparr>,
      planning_scene_diff_msg_' = \<lparr>world = \<lparr>collision_objects = []\<rparr>, is_diff = False\<rparr>,
      collision_checker_thread_frequency_' = 30,
      display_timing_warning_' = False, console = []\<rparr>"

subsection \<open>A MARSHA manager\<close>

text \<open>
  A manager with one other path, the unaware obstacle \<open>table\<close> and
  \<^verbatim>\<open>dt_replan_\<close> of half a second; paths are numbers. \<open>toy_cc_env\<close> stands in for
  the path and manager methods of the collision check thread: cloning and checking leave a
  path as it is, the write-back stores the copies.
\<close>

definition toy_metrics :: length_penalty_metrics where
  "toy_metrics = \<lparr>ssm = \<lparr>ssm_obstacles_positions = [], ssm_poi_names = [''tool'']\<rparr>\<rparr>"

definition empty_scene :: planning_scene where
  "empty_scene = \<lparr>world = \<lparr>collision_objects = []\<rparr>, is_diff = False\<rparr>"

definition toy_manager ::
  "bool \<Rightarrow> length_penalty_metrics option \<Rightarrow> (nat marsha_replanner, nat) marsha_manager" where
  "toy_manager full ha =
     \<lparr>replanner_' = None, solver_' = 0, dt_replan_' = 1 / 2, configuration_replan_' = [0],
      current_path_replanning_' = 0, mgr_current_path_' = 0, current_path_shared_' = 0,
      current_path_sync_needed_' = False, mgr_current_configuration_' = [0],
      goal_tol_' = 1 / 1000, stop_' = False, checker_cc_' = [], planning_scn_cc_' = 0,
      group_name_' = ''arm'', planning_scene_msg_' = empty_scene,
      planning_scene_diff_msg_' = empty_scene, collision_checker_thread_frequency_' = 30,
      display_timing_warning_' = False, console = [],
      other_paths_' = [1], other_paths_shared_' = [1], other_paths_sync_needed_' = [False],
      reverse_start_nodes_' = False, full_net_search_' = full, ha_metrics_' = ha,
      unaware_obstacles_' = [''table''], poi_names_' = [''tool''], obstalces_positions_' = []\<rparr>"

definition toy_world :: planning_scene_world where
  "toy_world =
     \<lparr>collision_objects =
        [\<lparr>object_id = ''human'', pos_x = 1, pos_y = 2, pos_z = 3\<rparr>,
         \<lparr>object_id = ''table'', pos_x = 0, pos_y = 0, pos_z = 0\<rparr>,
         \<lparr>object_id = ''box'', pos_x = 4, pos_y = 5, pos_z = 6\<rparr>]\<rparr>"

definition toy_cc_env :: "nat cc_env" where
  "toy_cc_env =
     \<lparr>cc_NDEBUG = False,
      path_clone = (\<lambda>p. p),
      checkPathTask = (\<lambda>c metr p. p),
      path_findConnection = (\<lambda>p q. 0),
      path_isValidFromConf = (\<lambda>p q i c metr. p),
      updatePathsCost = (\<lambda>p ps m. m\<lparr>current_path_shared_' := p, other_paths_shared_' := ps\<rparr>),
      goal_configuration = (\<lambda>r. [3])\<rparr>"

definition toy_locals :: "nat cc_locals" where
  "toy_locals =
     \<lparr>current_configuration_copy = [], planning_scene_msg = empty_scene, obstacles_positions = [],
      metrics_current_path = toy_metrics, current_path_copy = 0, other_paths_copy = [1],
      checkers = [[]], metrics = [toy_metrics], other_path_size = 1\<rparr>"

section \<open>Properties\<close>

subsection \<open>The replanning goal\<close>

lemma nodeBehindObs_scan_skip:
  "\<forall>j. i < j \<and> j < n \<longrightarrow> cost (conns ! j) \<noteq> PInf \<Longrightarrow> i < n \<Longrightarrow>
   nodeBehindObs_scan conns n = nodeBehindObs_scan conns (Suc i)"
proof (induction n)
  case 0
  then show ?case by simp
next
  case (Suc n)
  show ?case
  proof (cases "i = n")
    case True
    then show ?thesis by simp
  next
    case False
    with Suc.prems have lt: "i < n" by simp
    from Suc.prems lt have "cost (conns ! n) \<noteq> PInf" by simp
    moreover have "nodeBehindObs_scan conns n = nodeBehindObs_scan conns (Suc i)"
      using Suc.IH Suc.prems lt by simp
    ultimately show ?thesis by simp
  qed
qed

lemma last_obstructed_exists:
  "\<exists>i < (n::nat). P i \<Longrightarrow> \<exists>i < n. P i \<and> (\<forall>j. i < j \<and> j < n \<longrightarrow> \<not> P j)"
proof (induction n)
  case 0
  then show ?case by simp
next
  case (Suc n)
  show ?case
  proof (cases "P n")
    case True
    then have "n < Suc n \<and> P n \<and> (\<forall>j. n < j \<and> j < Suc n \<longrightarrow> \<not> P j)" by auto
    then show ?thesis by blast
  next
    case False
    with Suc.prems have "\<exists>i < n. P i" using less_Suc_eq by auto
    then obtain i where i: "i < n" "P i" "\<forall>j. i < j \<and> j < n \<longrightarrow> \<not> P j"
      using Suc.IH by blast
    with False have "\<forall>j. i < j \<and> j < Suc n \<longrightarrow> \<not> P j" using less_Suc_eq by auto
    with i show ?thesis using less_Suc_eq by blast
  qed
qed

text \<open>
  Claim C1, as the code has it. For every path with at least one connection of infinite
  cost, \<open>nodeBehindObs\<close> succeeds. With \<open>i\<close> the index of the last obstructed connection,
  the replanning goal is the child of connection \<open>i + 1\<close> (the connection that follows the
  last obstructed one) when there is one, and the child of connection \<open>i\<close> itself when the
  last obstructed connection is the last connection of the path.
\<close>

theorem nodeBehindObs_goal:
  assumes "\<exists>c \<in> set conns. cost c = PInf"
  shows "\<exists>i < length conns. cost (conns ! i) = PInf
           \<and> (\<forall>j. i < j \<and> j < length conns \<longrightarrow> cost (conns ! j) \<noteq> PInf)
           \<and> nodeBehindObs conns =
               Some (child (conns ! (if i < length conns - 1 then i + 1 else i)))"
proof -
  from assms have "\<exists>i < length conns. cost (conns ! i) = PInf"
    by (metis in_set_conv_nth)
  then obtain i where i: "i < length conns" "cost (conns ! i) = PInf"
    "\<forall>j. i < j \<and> j < length conns \<longrightarrow> cost (conns ! j) \<noteq> PInf"
    using last_obstructed_exists [of "length conns" "\<lambda>i. cost (conns ! i) = PInf"] by blast
  have "nodeBehindObs conns = nodeBehindObs_scan conns (Suc i)"
    unfolding nodeBehindObs_def using nodeBehindObs_scan_skip [OF i(3) i(1)] .
  with i(2) have "nodeBehindObs conns =
      Some (child (conns ! (if i < length conns - 1 then i + 1 else i)))"
    by simp
  with i show ?thesis by blast
qed

theorem nodeBehindObs_goal_witness:
  "nodeBehindObs path_last_obstructed = Some 3
   \<and> nodeBehindObs path_first_obstructed = Some 2"
proof -
  have a: "\<exists>c \<in> set path_last_obstructed. cost c = PInf"
    by (simp add: path_last_obstructed_def)
  have len: "length path_last_obstructed = 3"
    by (simp add: path_last_obstructed_def)
  have fin: "cost (path_last_obstructed ! 0) \<noteq> PInf" "cost (path_last_obstructed ! 1) \<noteq> PInf"
    by (simp_all add: path_last_obstructed_def)
  from nodeBehindObs_goal [OF a] obtain i where i: "i < length path_last_obstructed"
    "cost (path_last_obstructed ! i) = PInf"
    "nodeBehindObs path_last_obstructed =
       Some (child (path_last_obstructed ! (if i < length path_last_obstructed - 1 then i + 1 else i)))"
    by blast
  from i(1) len have "i = 0 \<or> i = 1 \<or> i = 2" by auto
  with i(2) fin have "i = 2" by auto
  with i(3) len have "nodeBehindObs path_last_obstructed = Some 3"
    by (simp add: path_last_obstructed_def)
  moreover have "nodeBehindObs path_first_obstructed = Some 2"
    by (simp add: nodeBehindObs_def path_first_obstructed_def)
  ultimately show ?thesis by simp
qed

text \<open>
  Claim C1 as stated says that the goal is the child of the last obstructed connection.
  On \<open>0 \<rightarrow> 1 \<rightarrow> 2 \<rightarrow> 3\<close> with only the first connection obstructed, that child is node
  \<open>1\<close>, and \<open>nodeBehindObs\<close> returns node \<open>2\<close>.
\<close>

theorem nodeBehindObs_goal_counterexample:
  "cost (path_first_obstructed ! 0) = PInf
   \<and> cost (path_first_obstructed ! 1) \<noteq> PInf
   \<and> cost (path_first_obstructed ! 2) \<noteq> PInf
   \<and> child (path_first_obstructed ! 0) = 1
   \<and> nodeBehindObs path_first_obstructed = Some 2
   \<and> nodeBehindObs path_first_obstructed \<noteq> Some (child (path_first_obstructed ! 0))"
  by (simp add: nodeBehindObs_def path_first_obstructed_def)

subsection \<open>Facts used below\<close>

lemma norm_diff_1d: "norm_diff [a] [b] = \<bar>a - b\<bar>"
  by (simp add: norm_diff_def)

lemmas toy_defs = toy_library_def toy_getNodes_def toy_getCostFromConf_def
  toy_addNodeAtCurrentConfig_def toy_removeNode_def toy_heap_def toy_replanner_def
  path_second_obstructed_def path_free_def

text \<open>\<^verbatim>\<open>rewireBehindObs\<close> returns \<^verbatim>\<open>success_\<close>.\<close>

lemma rewireBehindObs_returns_success:
  "rewireBehindObs fuel G node (r, h) = Some (Inr (b, r2, h2)) \<Longrightarrow> success_' r2 = b"
  by (auto simp add: rewireBehindObs_def rewire_finish_def Let_def
      split: if_splits option.splits sum.splits prod.splits)




subsection \<open>\<^verbatim>\<open>replan\<close>\<close>

text \<open>
  Claim C6. When the cost of the current path from the current configuration is not
  infinite, \<open>replan\<close> returns \<^verbatim>\<open>false\<close> with any fuel (it never enters the sampling
  loop), leaves the heap as it is, sets \<^verbatim>\<open>success_\<close> to false and makes
  \<^verbatim>\<open>replanned_path_\<close> the current path. In a build with assertions the code asserts
  \<^verbatim>\<open>isValidFromConf\<close> on this branch: the second hypothesis says that the build has no
  assertions or that the asserted condition holds.
\<close>

theorem replan_not_needed:
  assumes "getCostFromConf G (current_path_' r) (current_configuration_' r) h \<noteq> PInf"
    and "NDEBUG G \<or> isValidFromConf G (current_path_' r) (current_configuration_' r) h"
  shows "replan fuel G (r, h) =
           Some (Inr (False, r\<lparr>success_' := False, replanned_path_' := current_path_' r\<rparr>, h))"
  using assms by (auto simp add: replan_def)

theorem replan_not_needed_witness:
  "replan 0 (toy_library [5 / 2]) (toy_replanner 1, toy_heap path_free) =
     Some (Inr (False, (toy_replanner 1)\<lparr>replanned_path_' := 0\<rparr>, toy_heap path_free))"
proof -
  have a: "getCostFromConf (toy_library [5 / 2]) (current_path_' (toy_replanner 1))
             (current_configuration_' (toy_replanner 1)) (toy_heap path_free) \<noteq> PInf"
    by (simp add: toy_defs)
  have b: "NDEBUG (toy_library [5 / 2])
           \<or> isValidFromConf (toy_library [5 / 2]) (current_path_' (toy_replanner 1))
                (current_configuration_' (toy_replanner 1)) (toy_heap path_free)"
    by (simp add: toy_defs)
  from replan_not_needed [OF a b, of 0] show ?thesis
    by (simp add: toy_replanner_def)
qed

text \<open>
  Claim C2. \<open>replan\<close> finds the path obstructed, inserts \<open>node_replan\<close>, and
  \<^verbatim>\<open>rewireBehindObs\<close> returns false. Then \<open>replan\<close> calls
  \<^verbatim>\<open>changeRoot\<close> with the root the tree had when \<open>replan\<close> was entered; when that
  succeeds (and the assertion on the restored root holds or is compiled out) it calls
  \<^verbatim>\<open>removeNode(node_replan, {})\<close> on the current path and returns false when the node
  was removed and true when it was not. \<^verbatim>\<open>success_\<close> is false in the replanner it
  leaves.
\<close>

theorem replan_failure_restores:
  assumes obstructed: "getCostFromConf G (current_path_' r) (current_configuration_' r) h = PInf"
    and located: "findConnection G (current_path_' r) (current_configuration_' r) h = Some conn"
    and added: "addNodeAtCurrentConfig G (current_path_' r) (current_configuration_' r)
                  (Some conn) True h = (node_replan, h1)"
    and rewired: "rewireBehindObs fuel G node_replan (r\<lparr>success_' := False\<rparr>, h1)
                  = Some (Inr (False, r2, h2))"
    and restored: "changeRoot G (path_tree (paths h2 (current_path_' r2)))
                     (tree_root h (path_tree (paths h (current_path_' r)))) h2 = (True, h3)"
    and asserted: "NDEBUG G
                   \<or> tree_root h (path_tree (paths h (current_path_' r))) = node_replan
                   \<or> tree_root h3 (path_tree (paths h3 (current_path_' r2))) \<noteq> node_replan"
    and removal: "removeNode G (current_path_' r2) node_replan [] h3 = (removed, h4)"
  shows "replan fuel G (r, h) = Some (Inr (\<not> removed, r2, h4)) \<and> \<not> success_' r2"
proof -
  from rewired have s: "\<not> success_' r2"
    using rewireBehindObs_returns_success by blast
  have "replan_restore G (tree_root h (path_tree (paths h (current_path_' r)))) node_replan (r2, h2)
          = Inr (\<not> removed, r2, h4)"
    using restored asserted removal by (auto simp add: replan_restore_def)
  with obstructed located added rewired s show ?thesis
    by (simp add: replan_def)
qed

theorem replan_failure_restores_witness:
  "\<exists>h4. replan 0 (toy_library [5 / 2]) (toy_replanner 0, toy_heap path_second_obstructed)
           = Some (Inr (False, toy_replanner 0, h4))
         \<and> tree_root h4 0 = 0
         \<and> connections (paths h4 0) = path_second_obstructed"
proof -
  define G where "G = toy_library [5 / 2]"
  define r where "r = toy_replanner 0"
  define h where "h = toy_heap path_second_obstructed"
  define c0 where "c0 = \<lparr>parent = 0, child = Suc 0, cost = Fin 1\<rparr>"
  define h1 where "h1 = snd (toy_addNodeAtCurrentConfig 0 [1 / 2] (Some c0) True h)"
  define h2 where "h2 = h1\<lparr>tree_root := (tree_root h1)(0 := 9, Suc 0 := 9)\<rparr>"
  define h3 where "h3 = h2\<lparr>tree_root := (tree_root h2)(0 := 0)\<rparr>"
  define h4 where "h4 = snd (toy_removeNode 0 9 [] h3)"
  note defs = G_def r_def h_def c0_def h1_def h2_def h3_def h4_def
  have a1: "getCostFromConf G (current_path_' r) (current_configuration_' r) h = PInf"
    by (simp add: defs toy_defs)
  have a2: "findConnection G (current_path_' r) (current_configuration_' r) h = Some c0"
    by (simp add: defs toy_defs)
  have a3: "addNodeAtCurrentConfig G (current_path_' r) (current_configuration_' r)
              (Some c0) True h = (9, h1)"
    by (simp add: defs toy_defs Let_def)
  have p1: "connections (paths h1 0) =
              [\<lparr>parent = 0, child = 9, cost = Fin 1\<rparr>, \<lparr>parent = 9, child = Suc 0, cost = Fin 1\<rparr>,
               \<lparr>parent = Suc 0, child = 2, cost = PInf\<rparr>, \<lparr>parent = 2, child = 3, cost = Fin 1\<rparr>]"
    "path_tree (paths h1 0) = 0" "tree_root h1 0 = 0"
    "parent_connections_' h1 9 = [\<lparr>parent = 0, child = 9, cost = Fin 1\<rparr>]"
    "configuration h1 9 = [1 / 2]" "configuration h1 3 = [3]" "wall_time h1 = 100"
    by (simp_all add: defs toy_defs Let_def Connection_add_def Connection_remove_def)
  have a4: "rewireBehindObs 0 G 9 (r\<lparr>success_' := False\<rparr>, h1) = Some (Inr (False, r, h2))"
    by (simp add: rewireBehindObs_def rewire_finish_def Let_def p1 nodeBehindObs_def G_def r_def
          toy_library_def toy_replanner_def toy_getNodes_def norm_diff_1d h2_def)
  have a5: "changeRoot G (path_tree (paths h2 (current_path_' r)))
              (tree_root h (path_tree (paths h (current_path_' r)))) h2 = (True, h3)"
    by (simp add: G_def r_def toy_library_def toy_replanner_def h3_def h2_def p1 h_def toy_heap_def)
  have a6: "NDEBUG G \<or> tree_root h (path_tree (paths h (current_path_' r))) = 9
            \<or> tree_root h3 (path_tree (paths h3 (current_path_' r))) \<noteq> 9"
    by (simp add: r_def toy_replanner_def h3_def h2_def p1)
  have a7: "removeNode G (current_path_' r) 9 [] h3 = (True, h4)"
    by (simp add: G_def r_def toy_library_def toy_replanner_def toy_removeNode_def h4_def h3_def
          h2_def p1 Let_def)
  have e: "tree_root h4 0 = 0" "connections (paths h4 0) = path_second_obstructed"
    by (simp_all add: h4_def toy_removeNode_def h3_def h2_def p1 Let_def Connection_add_def
          Connection_remove_def path_second_obstructed_def)
  from replan_failure_restores [OF a1 a2 a3 a4 a5 a6 a7] e
  show ?thesis unfolding G_def r_def h_def by auto
qed

text \<open>A run of \<open>replan\<close> that succeeds: the library \<open>toy_library [5 / 2]\<close> puts the new
  node within reach of the goal, one iteration attaches the goal to it, and the replanned
  path is a new path object.\<close>

lemma replan_success_example:
  "\<exists>r h. replan 5 (toy_library [5 / 2]) (toy_replanner 1, toy_heap path_second_obstructed)
     = Some (Inr (True, r, h)) \<and> success_' r \<and> replanned_path_' r = 3
     \<and> connections (paths h 3) = [\<lparr>parent = 7, child = 3, cost = Fin (1 / 2)\<rparr>]
     \<and> tree_root h 0 = 0 \<and> wall_time h = 101"
  by (simp add: replan_def toy_defs Let_def rewireBehindObs_def nodeBehindObs_def norm_diff_1d
     LocalInformedSampler_def addBall_def Connection_add_def Connection_remove_def numeral_eq_Suc
     phaseB_body_def detach_goal_def rewire_finish_def)

subsection \<open>The sampling loop of \<^verbatim>\<open>rewireBehindObs\<close>\<close>




text \<open>With the far samples of \<open>toy_library [10]\<close> every iteration ends by
  \<^verbatim>\<open>continue\<close>.\<close>

lemma toy_far_body:
  "phaseB_body (toy_library [10]) 100 1 (15 / 4) [0, 1, 2, 3] 3 1 toy_sampler (toy_far_state n)
     = Inr (toy_far_state (Suc n))"
  by (simp add: phaseB_body_def toy_far_state_def toy_library_def toy_heap_def
        path_second_obstructed_def norm_diff_1d Let_def add.commute add.left_commute)

lemma toy_far_loop:
  assumes "time s < 0.98 * max_time" and "configuration (hp s) 3 = [3]"
    and "length (parent_connections_' (hp s) 3) = 1"
  shows "phaseB_loop fuel (toy_library [10]) tic subtree radius white_list 3 1 sampler max_time s
           = None"
  using assms
proof (induction fuel arbitrary: s)
  case 0
  then show ?case by simp
next
  case (Suc fuel)
  define h2 where "h2 = (hp s)\<lparr>library_state := Suc (library_state (hp s)),
                     configuration := (configuration (hp s))(7 := [10]),
                     wall_time := wall_time (hp s) + 1\<rparr>"
  define s' where "s' = s\<lparr>hp := h2\<rparr>"
  have body: "phaseB_body (toy_library [10]) tic subtree radius white_list 3 1 sampler s = Inr s'"
    using Suc.prems(2,3)
    by (simp add: phaseB_body_def toy_library_def Let_def norm_diff_1d s'_def h2_def)
  have "phaseB_loop fuel (toy_library [10]) tic subtree radius white_list 3 1 sampler max_time s'
          = None"
    using Suc.prems by (intro Suc.IH) (simp_all add: s'_def h2_def)
  with body Suc.prems(1) show ?case by simp
qed

text \<open>
  Claim C4, evaluated where the code departs from it. The budget \<^verbatim>\<open>max_time_\<close> is one
  second and every call of \<^verbatim>\<open>rewireWithPathCheck\<close> takes one second and returns a node
  farther than \<^verbatim>\<open>max_distance\<close> from the goal. Each iteration then ends by
  \<^verbatim>\<open>continue\<close>, which skips the reading of the clock: iteration \<open>n + 1\<close> starts from
  the state \<open>toy_far_state n\<close>, \<open>n\<close> seconds after the start, with \<^verbatim>\<open>time\<close> still
  \<open>0\<close>. The loop does not end with any fuel, and neither does \<open>replan\<close>.
\<close>

theorem phaseB_stale_time:
  "(\<forall>n. phaseB_body (toy_library [10]) 100 1 (15 / 4) [0, 1, 2, 3] 3 1 toy_sampler (toy_far_state n)
          = Inr (toy_far_state (Suc n)))
   \<and> (\<forall>n. time (toy_far_state n) = 0 \<and> wall_time (hp (toy_far_state n)) - 100 = real n)
   \<and> (\<forall>fuel n. phaseB_loop fuel (toy_library [10]) 100 1 (15 / 4) [0, 1, 2, 3] 3 1 toy_sampler
                  (0.98 * max_time_' (toy_replanner 1)) (toy_far_state n) = None)
   \<and> (\<forall>fuel. replan fuel (toy_library [10]) (toy_replanner 1, toy_heap path_second_obstructed)
               = None)"
proof -
  have a: "\<forall>n. time (toy_far_state n) = 0 \<and> wall_time (hp (toy_far_state n)) - 100 = real n"
    by (simp add: toy_far_state_def)
  have b: "phaseB_loop fuel (toy_library [10]) 100 1 (15 / 4) [0, 1, 2, 3] 3 1 toy_sampler
             (0.98 * max_time_' (toy_replanner 1)) (toy_far_state n) = None" for fuel n
    by (rule toy_far_loop) (simp_all add: toy_far_state_def toy_replanner_def toy_heap_def
          path_second_obstructed_def)
  have c: "replan fuel (toy_library [10]) (toy_replanner 1, toy_heap path_second_obstructed) = None"
    for fuel
  proof -
    define h1 where "h1 = snd (toy_addNodeAtCurrentConfig 0 [1 / 2]
                 (Some \<lparr>parent = 0, child = Suc 0, cost = Fin 1\<rparr>) True (toy_heap path_second_obstructed))"
    have p1: "connections (paths h1 0) =
              [\<lparr>parent = 0, child = 9, cost = Fin 1\<rparr>, \<lparr>parent = 9, child = Suc 0, cost = Fin 1\<rparr>,
               \<lparr>parent = Suc 0, child = 2, cost = PInf\<rparr>, \<lparr>parent = 2, child = 3, cost = Fin 1\<rparr>]"
      "path_tree (paths h1 0) = 0" "tree_root h1 0 = 0"
      "parent_connections_' h1 9 = [\<lparr>parent = 0, child = 9, cost = Fin 1\<rparr>]"
      "parent_connections_' h1 3 = [\<lparr>parent = 2, child = 3, cost = Fin 1\<rparr>]"
      "configuration h1 9 = [1 / 2]" "configuration h1 3 = [3]" "wall_time h1 = 100"
      by (simp_all add: h1_def toy_defs Let_def Connection_add_def Connection_remove_def)
    have r: "rewireBehindObs fuel (toy_library [10]) 9 (toy_replanner 1, h1) = None"
      apply (simp add: rewireBehindObs_def Let_def p1 nodeBehindObs_def toy_replanner_def
          norm_diff_1d)
      apply (simp add: toy_library_def toy_getNodes_def p1)
      apply (subst toy_far_loop [unfolded toy_library_def])
         apply (simp_all add: p1)
      done
    show ?thesis
      using r by (simp add: replan_def toy_defs Let_def h1_def)
  qed
  from toy_far_body a b c show ?thesis by blast
qed

theorem phaseB_stale_time_witness:
  "phaseB_body (toy_library [10]) 100 1 (15 / 4) [0, 1, 2, 3] 3 1 toy_sampler (toy_far_state 2)
     = Inr (toy_far_state 3)
   \<and> wall_time (hp (toy_far_state 2)) - 100 = 2
   \<and> replan 7 (toy_library [10]) (toy_replanner 1, toy_heap path_second_obstructed) = None"
  using phaseB_stale_time by (simp add: numeral_3_eq_3)

subsection \<open>The hot swap of the DRRT* manager\<close>

text \<open>
  Claim C3, as the code has it. \<open>startReplannedPathFromNewCurrentConf\<close> takes the tree of
  the replanner's current path as it is in the heap, calls \<^verbatim>\<open>addNodeAtCurrentConfig\<close>
  on that path (with a null connection) and \<^verbatim>\<open>changeRoot\<close> on that tree, and writes
  the tree's connections to the goal into the replanned path of the replanner. Nothing else
  differs from the heap the two library calls leave: no other path object is written, no
  object is created.
\<close>

theorem startReplannedPath_in_place:
  assumes installed: "replanner_' m = Some r"
    and added: "addNodeAtCurrentConfig G (current_path_' r) conf None True h = (current_node, h1)"
    and rerooted: "changeRoot G (path_tree (paths h (current_path_' r))) current_node h1 = (b, h2)"
  shows "\<exists>h'. startReplannedPathFromNewCurrentConf G conf (m, h) = Inr (m, h')
           \<and> connections (paths h' (replanned_path_' r))
               = getConnectionToNode G (path_tree (paths h (current_path_' r))) (goal_node_' r) h2
           \<and> path_tree (paths h' (replanned_path_' r)) = path_tree (paths h2 (replanned_path_' r))
           \<and> (\<forall>p. p \<noteq> replanned_path_' r \<longrightarrow> paths h' p = paths h2 p)
           \<and> h'\<lparr>paths := paths h2\<rparr> = h2"
  using assms by (simp add: startReplannedPathFromNewCurrentConf_def Let_def)

theorem startReplannedPath_in_place_witness:
  "\<exists>h'. startReplannedPathFromNewCurrentConf (toy_library [5 / 2]) [1 / 2]
            (toy_drrt_manager, toy_heap path_free) = Inr (toy_drrt_manager, h')
         \<and> connections (paths h' 1) = [\<lparr>parent = 2, child = 3, cost = Fin 1\<rparr>]
         \<and> path_tree (paths h' 1) = 0
         \<and> tree_root h' 0 = 9"
proof -
  define h1 where "h1 = snd (toy_addNodeAtCurrentConfig 0 [1 / 2] None True (toy_heap path_free))"
  define h2 where "h2 = h1\<lparr>tree_root := (tree_root h1)(0 := 9)\<rparr>"
  have a: "replanner_' toy_drrt_manager = Some (toy_replanner 1)"
    by (simp add: toy_drrt_manager_def)
  have b: "addNodeAtCurrentConfig (toy_library [5 / 2]) (current_path_' (toy_replanner 1)) [1 / 2]
             None True (toy_heap path_free) = (9, h1)"
    by (simp add: toy_defs Let_def h1_def)
  have c: "changeRoot (toy_library [5 / 2])
             (path_tree (paths (toy_heap path_free) (current_path_' (toy_replanner 1)))) 9 h1
           = (True, h2)"
    by (simp add: toy_library_def toy_heap_def toy_replanner_def h2_def)
  have e: "getConnectionToNode (toy_library [5 / 2])
             (path_tree (paths (toy_heap path_free) (current_path_' (toy_replanner 1))))
             (goal_node_' (toy_replanner 1)) h2 = [\<lparr>parent = 2, child = 3, cost = Fin 1\<rparr>]"
    "path_tree (paths h2 1) = 0" "tree_root h2 0 = 9"
    by (simp_all add: h2_def h1_def toy_defs Let_def Connection_add_def Connection_remove_def)
  from startReplannedPath_in_place [OF a b c] obtain h' where h':
    "startReplannedPathFromNewCurrentConf (toy_library [5 / 2]) [1 / 2]
            (toy_drrt_manager, toy_heap path_free) = Inr (toy_drrt_manager, h')"
    "connections (paths h' (replanned_path_' (toy_replanner 1)))
       = getConnectionToNode (toy_library [5 / 2])
             (path_tree (paths (toy_heap path_free) (current_path_' (toy_replanner 1))))
             (goal_node_' (toy_replanner 1)) h2"
    "path_tree (paths h' (replanned_path_' (toy_replanner 1))) = path_tree (paths h2 (replanned_path_' (toy_replanner 1)))"
    "h'\<lparr>paths := paths h2\<rparr> = h2"
    by blast
  have "tree_root h' = tree_root (h'\<lparr>paths := paths h2\<rparr>)" by simp
  with h'(4) e(3) have "tree_root h' 0 = 9" by simp
  with h'(1,2,3) e show ?thesis
    by (auto simp add: toy_replanner_def)
qed

text \<open>
  Claim C3 as stated has the method work on a clone of the replanned tree and replace the
  edges of the executing path. In the example the replanned path lives on tree \<open>0\<close>,
  rooted at node \<open>0\<close>; after the call that very tree is rooted at the new node \<open>9\<close> and
  no path object was created. The path the manager follows and shares (path \<open>2\<close>) has the
  connections it had; the connections to the goal went to the replanner's replanned path.
\<close>

theorem startReplannedPath_clone_counterexample:
  "(case startReplannedPathFromNewCurrentConf (toy_library [5 / 2]) [1 / 2]
           (toy_drrt_manager, toy_heap path_free) of
      Inl e \<Rightarrow> False
    | Inr (m', h') \<Rightarrow>
        path_tree (paths (toy_heap path_free) (replanned_path_' (toy_replanner 1))) = 0
        \<and> tree_root (toy_heap path_free) 0 = 0
        \<and> tree_root h' 0 = 9
        \<and> next_path h' = next_path (toy_heap path_free)
        \<and> current_path_shared_' toy_drrt_manager = 2
        \<and> connections (paths h' 2) = connections (paths (toy_heap path_free) 2)
        \<and> connections (paths h' 2) \<noteq> [\<lparr>parent = 2, child = 3, cost = Fin 1\<rparr>]
        \<and> connections (paths h' (replanned_path_' (toy_replanner 1)))
             = [\<lparr>parent = 2, child = 3, cost = Fin 1\<rparr>])"
  by (simp add: startReplannedPathFromNewCurrentConf_def toy_drrt_manager_def toy_defs Let_def
        Connection_add_def Connection_remove_def)

subsection \<open>The MARSHA manager\<close>

lemma updateObstaclesPositions_loop_filter:
  "updateObstaclesPositions_loop unaware objs acc =
     acc @ map (\<lambda>obj. (pos_x obj, pos_y obj, pos_z obj))
             (filter (\<lambda>obj. object_id obj \<notin> set unaware) objs)"
  by (induction objs arbitrary: acc) simp_all

text \<open>
  Claim C7. For every world, \<open>updateObstaclesPositions\<close> returns the positions of the
  collision objects whose identifier is not in \<^verbatim>\<open>unaware_obstacles_\<close>, one column per
  object, in the order of the world. In the collision check cycle the checkers receive the
  message with the whole world (unaware obstacles included), while the metrics of the
  current path and of the other paths receive the positions of the aware obstacles only.
  The hypothesis says that every checker of the thread has its metrics, as the thread
  builds them.
\<close>

theorem updateObstaclesPositions_aware:
  assumes "length (checkers l) \<le> length (metrics l)"
  shows "updateObstaclesPositions m w =
           map (\<lambda>obj. (pos_x obj, pos_y obj, pos_z obj))
             (filter (\<lambda>obj. object_id obj \<notin> set (unaware_obstacles_' m)) (collision_objects w))
         \<and> (\<exists>m' l'. cc_scene_update resp (m, l) = Inr (m', l')
               \<and> checker_cc_' m' = \<lparr>world = world resp, is_diff = True\<rparr> # checker_cc_' m
               \<and> checkers l' = map ((#) \<lparr>world = world resp, is_diff = True\<rparr>) (checkers l)
               \<and> obstacles_positions l' = updateObstaclesPositions m (world resp)
               \<and> ssm_obstacles_positions (ssm (metrics_current_path l'))
                   = updateObstaclesPositions m (world resp)
               \<and> map (\<lambda>x. ssm_obstacles_positions (ssm x)) (take (length (checkers l)) (metrics l'))
                   = map (\<lambda>x. updateObstaclesPositions m (world resp)) (checkers l))"
proof -
  have a: "updateObstaclesPositions m w =
           map (\<lambda>obj. (pos_x obj, pos_y obj, pos_z obj))
             (filter (\<lambda>obj. object_id obj \<notin> set (unaware_obstacles_' m)) (collision_objects w))"
    by (simp add: updateObstaclesPositions_def updateObstaclesPositions_loop_filter)
  have msg: "(planning_scene_msg l)\<lparr>world := world resp, is_diff := True\<rparr>
               = \<lparr>world = world resp, is_diff = True\<rparr>"
    by simp
  have len: "length (map f (take (length (checkers l)) (metrics l))) = length (checkers l)" for f :: "length_penalty_metrics \<Rightarrow> matrix3xN"
    using assms by simp
  have b: "\<exists>m' l'. cc_scene_update resp (m, l) = Inr (m', l')
               \<and> checker_cc_' m' = \<lparr>world = world resp, is_diff = True\<rparr> # checker_cc_' m
               \<and> checkers l' = map ((#) \<lparr>world = world resp, is_diff = True\<rparr>) (checkers l)
               \<and> obstacles_positions l' = updateObstaclesPositions m (world resp)
               \<and> ssm_obstacles_positions (ssm (metrics_current_path l'))
                   = updateObstaclesPositions m (world resp)
               \<and> map (\<lambda>x. ssm_obstacles_positions (ssm x)) (take (length (checkers l)) (metrics l'))
                   = map (\<lambda>x. updateObstaclesPositions m (world resp)) (checkers l)"
    using assms
    apply (simp add: cc_scene_update_def Let_def msg setPlanningSceneMsg_def setObstaclesPositions_def
         comp_def)
    apply (rule nth_equalityI)
     apply simp
    apply simp
    done
  from a b show ?thesis by blast
qed

lemma toy_world_aware:
  "map (\<lambda>obj. (pos_x obj, pos_y obj, pos_z obj))
     (filter (\<lambda>obj. object_id obj \<notin> set (unaware_obstacles_' (toy_manager False (Some toy_metrics))))
        (collision_objects toy_world)) = [(1, 2, 3), (4, 5, 6)]"
  by (simp add: toy_world_def toy_manager_def)

theorem updateObstaclesPositions_aware_witness:
  "updateObstaclesPositions (toy_manager False (Some toy_metrics)) toy_world = [(1, 2, 3), (4, 5, 6)]
   \<and> (\<exists>m' l'. cc_scene_update \<lparr>world = toy_world, is_diff = False\<rparr>
                  (toy_manager False (Some toy_metrics), toy_locals) = Inr (m', l')
         \<and> checker_cc_' m' = [\<lparr>world = toy_world, is_diff = True\<rparr>]
         \<and> checkers l' = [[\<lparr>world = toy_world, is_diff = True\<rparr>]]
         \<and> ssm_obstacles_positions (ssm (metrics_current_path l')) = [(1, 2, 3), (4, 5, 6)])"
proof -
  have h: "length (checkers toy_locals) \<le> length (metrics toy_locals)"
    by (simp add: toy_locals_def)
  have c: "checker_cc_' (toy_manager False (Some toy_metrics)) = []" "checkers toy_locals = [[]]"
    by (simp_all add: toy_manager_def toy_locals_def)
  from updateObstaclesPositions_aware [OF h, of "toy_manager False (Some toy_metrics)" toy_world
        "\<lparr>world = toy_world, is_diff = False\<rparr>"]
  show ?thesis
    unfolding toy_world_aware by (auto simp add: c)
qed

text \<open>
  Claim C8. When \<open>initReplanner\<close> completes (the metrics handle is not null), the
  manager's \<^verbatim>\<open>full_net_search_\<close> is false, and the replanner it installs has received
  \<^verbatim>\<open>setFullNetSearch(false)\<close> as the last call of that setter (\<open>Some False\<close>; a replanner
  on which the setter was not called has \<open>None\<close>), whatever the configured value was. The
  replanner has also received the manager's \<^verbatim>\<open>reverse_start_nodes_\<close>, and the console
  gets the warning exactly when full net search had been requested.
\<close>

theorem initReplanner_full_net_search_off:
  assumes "ha_metrics_' m = Some ha"
  shows "\<exists>m' r. initReplanner m = Inr m'
           \<and> \<not> full_net_search_' m'
           \<and> replanner_' m' = Some r \<and> rp_full_net_search r = Some False
           \<and> rp_reverse_start_nodes r = Some (reverse_start_nodes_' m)
           \<and> console m' = console m @ (if full_net_search_' m
                then [ROS_WARN ''full net search not available for MARSHA''] else [])"
  using assms
  by (simp add: initReplanner_def Let_def setFullNetSearch_def setDisp_def reverseStartNodes_def
        MARSHA_def)

theorem initReplanner_full_net_search_off_witness:
  "\<exists>m' r. initReplanner (toy_manager True (Some toy_metrics)) = Inr m'
     \<and> \<not> full_net_search_' m' \<and> replanner_' m' = Some r \<and> rp_full_net_search r = Some False
     \<and> console m' = [ROS_WARN ''full net search not available for MARSHA'']"
proof -
  have h: "ha_metrics_' (toy_manager True (Some toy_metrics)) = Some toy_metrics"
    by (simp add: toy_manager_def)
  have c: "console (toy_manager True (Some toy_metrics)) = []"
    "full_net_search_' (toy_manager True (Some toy_metrics))"
    by (simp_all add: toy_manager_def)
  from initReplanner_full_net_search_off [OF h] show ?thesis
    by (auto simp add: c)
qed

text \<open>
  Claim C10. With a null metrics handle \<open>initReplanner\<close> throws the
  \<^verbatim>\<open>std::runtime_error\<close>; with any other handle it constructs the replanner with that
  metrics and the deadline \<open>0.9 \<cdot> dt_replan_\<close>; and whenever it returns, the handle was
  not null and a replanner is installed.
\<close>

theorem initReplanner_requires_metrics:
  "(ha_metrics_' m = None \<longrightarrow> initReplanner m = Inl (Runtime_error ''HA metrics not defined!''))
   \<and> (\<forall>ha. ha_metrics_' m = Some ha \<longrightarrow>
         (\<exists>m' r. initReplanner m = Inr m' \<and> replanner_' m' = Some r
            \<and> rp_max_time r = 0.9 * dt_replan_' m \<and> rp_ha_metrics r = ha))
   \<and> (\<forall>m'. initReplanner m = Inr m' \<longrightarrow> ha_metrics_' m \<noteq> None \<and> replanner_' m' \<noteq> None)"
  by (auto simp add: initReplanner_def Let_def setFullNetSearch_def setDisp_def
        reverseStartNodes_def MARSHA_def split: option.splits)

theorem initReplanner_requires_metrics_witness:
  "initReplanner (toy_manager False None :: (nat marsha_replanner, nat) marsha_manager)
     = Inl (Runtime_error ''HA metrics not defined!'')
   \<and> (\<exists>m' r. initReplanner (toy_manager False (Some toy_metrics)) = Inr m'
         \<and> replanner_' m' = Some r \<and> rp_max_time r = 9 / 20 \<and> rp_ha_metrics r = toy_metrics)"
proof -
  have n: "ha_metrics_' (toy_manager False None) = None"
    by (simp add: toy_manager_def)
  have h: "ha_metrics_' (toy_manager False (Some toy_metrics)) = Some toy_metrics"
    "dt_replan_' (toy_manager False (Some toy_metrics)) = 1 / 2"
    by (simp_all add: toy_manager_def)
  from initReplanner_requires_metrics [of "toy_manager False None"] n
  have a: "initReplanner (toy_manager False None) = Inl (Runtime_error ''HA metrics not defined!'')"
    by blast
  from initReplanner_requires_metrics [of "toy_manager False (Some toy_metrics)"] h(1)
  have "\<exists>m' r. initReplanner (toy_manager False (Some toy_metrics)) = Inr m'
         \<and> replanner_' m' = Some r
         \<and> rp_max_time r = 0.9 * dt_replan_' (toy_manager False (Some toy_metrics))
         \<and> rp_ha_metrics r = toy_metrics"
    by blast
  with a show ?thesis by (simp add: h(2))
qed

text \<open>
  Claim C9. If the call to the planning scene service fails in a cycle, the loop of the
  collision check thread ends in that cycle, whatever inputs would follow: the manager
  differs from the one the cycle started with in \<^verbatim>\<open>stop_\<close> (now set) and in the
  console (the error message) only, so no scene was given to a checker or to the metrics
  and no path cost was written back, and the thread's copies are untouched.
\<close>

theorem service_failure_stops:
  assumes "\<not> stop_' m" and "ros_ok inp" and "srv_response inp = None"
  shows "collisionCheckLoop E (inp # inps) (m, l) =
           Some (Inr (m\<lparr>console := console m @ [ROS_ERROR ''call to srv not ok''],
                       stop_' := True\<rparr>, l))"
  using assms by (simp add: cc_cycle_def)

theorem service_failure_stops_witness:
  "collisionCheckLoop toy_cc_env
     [\<lparr>ros_ok = True, srv_response = None, cycle_duration = 0\<rparr>,
      \<lparr>ros_ok = True, srv_response = Some \<lparr>world = toy_world, is_diff = False\<rparr>, cycle_duration = 0\<rparr>]
     (toy_manager False (Some toy_metrics), toy_locals)
   = Some (Inr ((toy_manager False (Some toy_metrics))
                  \<lparr>console := [ROS_ERROR ''call to srv not ok''], stop_' := True\<rparr>, toy_locals))"
proof -
  have h: "\<not> stop_' (toy_manager False (Some toy_metrics))"
    "console (toy_manager False (Some toy_metrics)) = []"
    by (simp_all add: toy_manager_def)
  from service_failure_stops [of "toy_manager False (Some toy_metrics)"
        "\<lparr>ros_ok = True, srv_response = None, cycle_duration = 0\<rparr>" toy_cc_env _ toy_locals, OF h(1)]
  show ?thesis by (simp add: h(2))
qed

end
